theory Spec2Isabelle
  imports Main "HOL-Library.Multiset"
begin

section \<open>Data model of the loop fusion pass (LoopFuse.cpp)\<close>

subsection \<open>Values, constants and instructions\<close>

text \<open>
  An LLVM type. Types are uniqued, so pointer equality of \<^verbatim>\<open>Type *\<close> is equality here.
\<close>

datatype llvm_type = IntegerTy nat | FloatTy | DoubleTy | PointerTy | OtherTy nat

text \<open>
  A \<^verbatim>\<open>Constant\<close>. \<^verbatim>\<open>ConstantInt\<close> carries its type and the value of its APInt,
  \<^verbatim>\<open>ConstantFP\<close> its type and the bit pattern of its APFloat; every other constant
  (a global, a null pointer, undef, a constant expression) is \<open>ConstantOther\<close>.
\<close>

datatype llvm_constant =
    ConstantInt llvm_type nat
  | ConstantFP llvm_type nat
  | ConstantOther llvm_type nat

fun getType :: "llvm_constant \<Rightarrow> llvm_type" where
  "getType (ConstantInt t _) = t"
| "getType (ConstantFP t _) = t"
| "getType (ConstantOther t _) = t"

text \<open>
  A non-null \<^verbatim>\<open>Value *\<close>: a constant, the result of an instruction, or a function
  argument. Constants are uniqued and instructions are named by their number, so the
  pointer comparison \<^verbatim>\<open>v1 == v2\<close> of the source is equality of these terms. A nullable
  pointer is an \<open>option\<close>, \<open>None\<close> for \<^verbatim>\<open>nullptr\<close>.
\<close>

datatype llvm_value = Const llvm_constant | InstValue nat | Argument nat

datatype binary_ops =
    Add | FAdd | Sub | FSub | Mul | FMul | UDiv | SDiv | FDiv
  | URem | SRem | FRem | Shl | LShr | AShr | BitAnd | BitOr | BitXor

text \<open>
  The instructions the pass tells apart, each with the operands it reads:
  a load (pointer operand 0, volatile flag), a store (value operand 0, pointer operand 1,
  volatile flag), a getelementptr (base operand 0), an integer comparison (operands 0 and 1),
  a binary operator (opcode, operands 0 and 1), and any other instruction with the answer
  of \<^verbatim>\<open>mayThrow\<close>. Of these only the last kind can throw.
\<close>

datatype instruction =
    LoadInst llvm_value bool
  | StoreInst llvm_value llvm_value bool
  | GetElementPtrInst llvm_value
  | ICmpInst llvm_value llvm_value
  | BinaryOperator binary_ops llvm_value llvm_value
  | OtherInst bool

subsection \<open>The structs of the pass\<close>

record LoopInduction =
  induction_variable :: "llvm_value option"
  start_const :: "llvm_constant option"
  start_variable :: "llvm_value option"
  stop_const :: "llvm_constant option"
  stop_variable :: "llvm_value option"
  advance_const :: "llvm_constant option"
  advance_variable :: "llvm_value option"
  advance_op :: binary_ops

text \<open>
  Blocks and loops are named by numbers; \<^verbatim>\<open>BasicBlock *\<close> is a \<open>nat option\<close>.
\<close>

record FusionCandidate =
  loop :: nat
  preheader :: "nat option"
  header :: "nat option"
  pre_exit :: "nat option"
  exit :: "nat option"
  latch :: "nat option"
  induction :: LoopInduction
  writes :: "llvm_value list"
  reads :: "llvm_value list"

subsection \<open>The legality checker\<close>

definition adjacent :: "FusionCandidate \<Rightarrow> FusionCandidate \<Rightarrow> bool" where
  "adjacent c1 c2 \<longleftrightarrow> exit c1 = preheader c2"

fun are_constants_equal :: "llvm_constant option \<Rightarrow> llvm_constant option \<Rightarrow> bool" where
  "are_constants_equal None None = True"
| "are_constants_equal None (Some r) = False"
| "are_constants_equal (Some l) None = False"
| "are_constants_equal (Some l) (Some r) =
     (if getType l \<noteq> getType r then False
      else (case l of
              ConstantInt _ lv \<Rightarrow> (case r of ConstantInt _ rv \<Rightarrow> lv = rv | _ \<Rightarrow> False)
            | ConstantFP _ lb \<Rightarrow> (case r of ConstantFP _ rb \<Rightarrow> lb = rb | _ \<Rightarrow> False)
            | ConstantOther _ _ \<Rightarrow> False))"

text \<open>
  \<^verbatim>\<open>same_loop_evolution\<close> prints a diagnostic and returns false, or returns true:
  \<open>Inl\<close> the line printed, \<open>Inr ()\<close> for true. Its four blocks are checked in the
  source's order: stop, advance, the operator, start. Each block is a function here that
  gives \<open>Some\<close> line when the block returns false and \<open>None\<close> when control falls
  through to the next block.
\<close>

definition stop_block :: "LoopInduction \<Rightarrow> LoopInduction \<Rightarrow> string option" where
  "stop_block i1 i2 =
    (if stop_const i1 \<noteq> None \<and> stop_const i2 \<noteq> None then
       (if \<not> are_constants_equal (stop_const i1) (stop_const i2)
        then Some ''Loop stops are not equal'' else None)
     else if stop_variable i1 \<noteq> None \<and> stop_variable i2 \<noteq> None then
       (if stop_variable i1 \<noteq> stop_variable i2
        then Some ''Loop stops are not equal'' else None)
     else Some ''Loop stops are not the same kinds of values'')"

definition advance_block :: "LoopInduction \<Rightarrow> LoopInduction \<Rightarrow> string option" where
  "advance_block i1 i2 =
    (if advance_const i1 \<noteq> None \<and> advance_const i2 \<noteq> None then
       (if \<not> are_constants_equal (advance_const i1) (advance_const i2)
        then Some ''Loop advances are not equal'' else None)
     else if advance_variable i1 \<noteq> None \<and> advance_variable i2 \<noteq> None then
       (if advance_variable i1 \<noteq> advance_variable i2
        then Some ''Loop advances are not equal'' else None)
     else Some ''Loop advances are not the same kinds of values'')"

definition advance_op_block :: "LoopInduction \<Rightarrow> LoopInduction \<Rightarrow> string option" where
  "advance_op_block i1 i2 =
    (if advance_op i1 \<noteq> advance_op i2
     then Some ''Loop advance operations are not the same'' else None)"

text \<open>The start block prints the advance line on unequal starts, as the source does.\<close>

definition start_block :: "LoopInduction \<Rightarrow> LoopInduction \<Rightarrow> string option" where
  "start_block i1 i2 =
    (if start_const i1 \<noteq> None \<and> start_const i2 \<noteq> None then
       (if \<not> are_constants_equal (start_const i1) (start_const i2)
        then Some ''Loop advances are not equal'' else None)
     else if start_variable i1 \<noteq> None \<and> start_variable i2 \<noteq> None then
       (if start_variable i1 \<noteq> start_variable i2
        then Some ''Loop advances are not equal'' else None)
     else Some ''Loop starts are not the same kinds of values'')"

definition same_loop_evolution :: "FusionCandidate \<Rightarrow> FusionCandidate \<Rightarrow> string + unit" where
  "same_loop_evolution c1 c2 =
    (let i1 = induction c1; i2 = induction c2 in
     case stop_block i1 i2 of Some line \<Rightarrow> Inl line | None \<Rightarrow>
     (case advance_block i1 i2 of Some line \<Rightarrow> Inl line | None \<Rightarrow>
     (case advance_op_block i1 i2 of Some line \<Rightarrow> Inl line | None \<Rightarrow>
     (case start_block i1 i2 of Some line \<Rightarrow> Inl line | None \<Rightarrow> Inr ()))))"

text \<open>
  \<^verbatim>\<open>dependent\<close>: the nested loops with their early \<^verbatim>\<open>return true\<close>.
\<close>

definition dependent :: "FusionCandidate \<Rightarrow> FusionCandidate \<Rightarrow> bool" where
  "dependent c1 c2 \<longleftrightarrow>
     list_ex (\<lambda>v1. list_ex (\<lambda>v2. v1 = v2) (reads c2) \<or> list_ex (\<lambda>v2. v1 = v2) (writes c2))
       (writes c1)
     \<or> list_ex (\<lambda>v1. list_ex (\<lambda>v2. v1 = v2) (reads c1)) (writes c2)"

definition can_be_fused :: "FusionCandidate \<Rightarrow> FusionCandidate \<Rightarrow> bool" where
  "can_be_fused c1 c2 \<longleftrightarrow>
     same_loop_evolution c1 c2 = Inr () \<and> \<not> dependent c1 c2 \<and> adjacent c1 c2"

subsection \<open>What LLVM answers about the function\<close>

text \<open>
  The pass reads the function through LLVM: the blocks of a loop in the order of
  \<^verbatim>\<open>getBlocks\<close>, its preheader, unique exit block, header, latch and exiting block
  (each a pointer that may be null), whether it is annotated parallel, and the
  instructions of a block in order. These answers are the input of the model.
\<close>

record Loop =
  getBlocks :: "nat list"
  getLoopPreheader :: "nat option"
  getUniqueExitBlock :: "nat option"
  getHeader :: "nat option"
  getLoopLatch :: "nat option"
  getExitingBlock :: "nat option"
  isAnnotatedParallel :: bool

record Function_IR =
  block :: "nat \<Rightarrow> instruction list"
  loops :: "nat \<Rightarrow> Loop"

text \<open>
  A failed build prints one line and returns false. Dereferencing a null block pointer,
  which the source never guards inside \<^verbatim>\<open>get_loop_induction\<close>, is a failure of its own.
\<close>

datatype failure = Diagnostic string | NullDereference

subsection \<open>The memory operation collector\<close>

definition is_loop_body :: "FusionCandidate \<Rightarrow> nat \<Rightarrow> bool" where
  "is_loop_body candidate BB \<longleftrightarrow>
     Some BB \<noteq> header candidate \<and> Some BB \<noteq> latch candidate \<and> Some BB \<noteq> pre_exit candidate"

text \<open>
  The candidate together with the three local variables of \<^verbatim>\<open>get_loop_memops\<close>.
  \<^verbatim>\<open>gep_operand\<close> is declared without a value: its first content is a parameter of
  the model.
\<close>

record memops_frame =
  candidate :: FusionCandidate
  gep_operand :: llvm_value
  seen_gep :: bool
  header_seen_load :: bool

definition writes_push_back :: "llvm_value \<Rightarrow> memops_frame \<Rightarrow> memops_frame" where
  "writes_push_back v s = s\<lparr>candidate := (candidate s)\<lparr>writes := writes (candidate s) @ [v]\<rparr>\<rparr>"

definition reads_push_back :: "llvm_value \<Rightarrow> memops_frame \<Rightarrow> memops_frame" where
  "reads_push_back v s = s\<lparr>candidate := (candidate s)\<lparr>reads := reads (candidate s) @ [v]\<rparr>\<rparr>"

fun header_instr :: "instruction \<Rightarrow> memops_frame \<Rightarrow> memops_frame" where
  "header_instr (LoadInst p vol) s =
     (if \<not> header_seen_load s then (writes_push_back p s)\<lparr>header_seen_load := True\<rparr>
      else reads_push_back p s)"
| "header_instr _ s = s"

fun body_instr :: "instruction \<Rightarrow> memops_frame \<Rightarrow> memops_frame" where
  "body_instr (LoadInst p vol) s =
     (if seen_gep s then (reads_push_back (gep_operand s) s)\<lparr>seen_gep := False\<rparr>
      else reads_push_back p s)"
| "body_instr (StoreInst v p vol) s =
     (if seen_gep s then (writes_push_back (gep_operand s) s)\<lparr>seen_gep := False\<rparr>
      else writes_push_back p s)"
| "body_instr (GetElementPtrInst b) s = s\<lparr>gep_operand := b, seen_gep := True\<rparr>"
| "body_instr _ s = s"

definition memops_block :: "Function_IR \<Rightarrow> nat \<Rightarrow> memops_frame \<Rightarrow> memops_frame" where
  "memops_block ir BB s =
     (if Some BB = header (candidate s) then fold header_instr (block ir BB) s
      else if is_loop_body (candidate s) BB then fold body_instr (block ir BB) s
      else s)"

definition get_loop_memops :: "llvm_value \<Rightarrow> Function_IR \<Rightarrow> FusionCandidate \<Rightarrow> FusionCandidate" where
  "get_loop_memops uninit ir c =
     candidate (fold (memops_block ir) (getBlocks (loops ir (loop c)))
       \<lparr>candidate = c, gep_operand = uninit, seen_gep = False, header_seen_load = False\<rparr>)"

subsection \<open>The induction variable extractor\<close>

text \<open>
  The locals of \<^verbatim>\<open>get_loop_induction\<close> carry the names of the fields of
  \<^verbatim>\<open>LoopInduction\<close> and are copied into them at the end, so one record holds them.
  \<^verbatim>\<open>variables[v]\<close> of the \<^verbatim>\<open>DenseMap\<close> gives null for a missing key.
\<close>

fun header_scan :: "(llvm_value \<rightharpoonup> llvm_value) \<Rightarrow> instruction \<Rightarrow> LoopInduction \<Rightarrow> LoopInduction" where
  "header_scan variables (ICmpInst a b) l =
     (case b of Const C \<Rightarrow> l\<lparr>stop_const := Some C\<rparr>
      | _ \<Rightarrow> l\<lparr>stop_variable := variables b\<rparr>)"
| "header_scan variables (LoadInst p vol) l =
     (if induction_variable l = None then l\<lparr>induction_variable := Some p\<rparr> else l)"
| "header_scan variables _ l = l"

fun stored_scan :: "llvm_value option \<Rightarrow> instruction \<Rightarrow> bool \<Rightarrow> bool" where
  "stored_scan iv (StoreInst v p vol) stored = (if Some p = iv then True else stored)"
| "stored_scan iv _ stored = stored"

definition induction_variable_is_stored ::
    "Function_IR \<Rightarrow> FusionCandidate \<Rightarrow> llvm_value option \<Rightarrow> bool" where
  "induction_variable_is_stored ir c iv =
     fold (\<lambda>BB stored. if \<not> is_loop_body c BB then stored
                        else fold (stored_scan iv) (block ir BB) stored)
       (getBlocks (loops ir (loop c))) False"

fun preheader_scan :: "(llvm_value \<rightharpoonup> llvm_value) \<Rightarrow> instruction \<Rightarrow> LoopInduction \<Rightarrow> LoopInduction" where
  "preheader_scan variables (StoreInst v p vol) l =
     (case v of Const (ConstantInt t n) \<Rightarrow> l\<lparr>start_const := Some (ConstantInt t n)\<rparr>
      | _ \<Rightarrow> l\<lparr>start_variable := variables v\<rparr>)"
| "preheader_scan variables _ l = l"

fun latch_scan :: "(llvm_value \<rightharpoonup> llvm_value) \<Rightarrow> instruction \<Rightarrow> LoopInduction \<Rightarrow> LoopInduction" where
  "latch_scan variables (BinaryOperator opc a b) l =
     (case b of
        Const (ConstantInt t n) \<Rightarrow> l\<lparr>advance_const := Some (ConstantInt t n), advance_op := opc\<rparr>
      | _ \<Rightarrow> l\<lparr>advance_variable := variables b, advance_op := opc\<rparr>)"
| "latch_scan variables _ l = l"

text \<open>
  \<^verbatim>\<open>advance_op\<close> is declared without a value; its first content is the parameter
  \<open>uninit_op\<close>.
\<close>

definition locals_init :: "binary_ops \<Rightarrow> LoopInduction" where
  "locals_init uninit_op = \<lparr>induction_variable = None,
     start_const = None, start_variable = None, stop_const = None, stop_variable = None,
     advance_const = None, advance_variable = None, advance_op = uninit_op\<rparr>"

definition get_loop_induction ::
    "binary_ops \<Rightarrow> Function_IR \<Rightarrow> FusionCandidate \<Rightarrow> (llvm_value \<rightharpoonup> llvm_value)
      \<Rightarrow> failure + FusionCandidate" where
  "get_loop_induction uninit_op ir c variables =
    (case header c of None \<Rightarrow> Inl NullDereference | Some h \<Rightarrow>
     let l1 = fold (header_scan variables) (block ir h) (locals_init uninit_op) in
     if induction_variable l1 = None
     then Inl (Diagnostic ''Loop does not have an induction variable.'')
     else if stop_const l1 = None \<and> stop_variable l1 = None
     then Inl (Diagnostic ''Loop stop is not a constant or a variable.'')
     else if \<not> induction_variable_is_stored ir c (induction_variable l1)
     then Inl (Diagnostic ''Loop induction variable is not used.'')
     else (case preheader c of None \<Rightarrow> Inl NullDereference | Some ph \<Rightarrow>
     let l2 = fold (preheader_scan variables) (block ir ph) l1 in
     if start_const l2 = None \<and> start_variable l2 = None
     then Inl (Diagnostic ''Loop start is not a constant or a variable.'')
     else (case latch c of None \<Rightarrow> Inl NullDereference | Some la \<Rightarrow>
     let l3 = fold (latch_scan variables) (block ir la) l2 in
     if advance_const l3 = None \<and> advance_variable l3 = None
     then Inl (Diagnostic ''Loop advance is not a constant or a variable.'')
     else Inr (c\<lparr>induction := l3\<rparr>))))"

subsection \<open>The candidate builder\<close>

text \<open>
  The first loop of \<^verbatim>\<open>create_fusion_candidate\<close> returns at the first instruction that
  may throw or is a volatile store or load.
\<close>

fun instr_rejected :: "instruction \<Rightarrow> string option" where
  "instr_rejected (OtherInst True) = Some ''Loop contains instruction that may throw exception.''"
| "instr_rejected (StoreInst v p True) = Some ''Loop contains volatile memory access.''"
| "instr_rejected (LoadInst p True) = Some ''Loop contains volatile memory access.''"
| "instr_rejected _ = None"

fun first_rejected :: "instruction list \<Rightarrow> string option" where
  "first_rejected [] = None"
| "first_rejected (i # is) =
     (case instr_rejected i of Some line \<Rightarrow> Some line | None \<Rightarrow> first_rejected is)"

definition create_fusion_candidate ::
    "llvm_value \<Rightarrow> binary_ops \<Rightarrow> Function_IR \<Rightarrow> FusionCandidate \<Rightarrow> nat
      \<Rightarrow> (llvm_value \<rightharpoonup> llvm_value) \<Rightarrow> failure + FusionCandidate" where
  "create_fusion_candidate uninit uninit_op ir candidate0 lp variables =
    (let L = loops ir lp in
     case first_rejected (concat (map (block ir) (getBlocks L))) of
       Some line \<Rightarrow> Inl (Diagnostic line)
     | None \<Rightarrow>
     let c1 = candidate0\<lparr>preheader := getLoopPreheader L, exit := getUniqueExitBlock L\<rparr> in
     if preheader c1 = None \<or> exit c1 = None
     then Inl (Diagnostic ''Loop does not have single entry or exit point.'')
     else if isAnnotatedParallel L
     then Inl (Diagnostic ''Loop is annotated parallel.'')
     else
     let c2 = c1\<lparr>header := getHeader L, latch := getLoopLatch L, pre_exit := getExitingBlock L\<rparr> in
     if header c2 = None \<or> latch c2 = None \<or> pre_exit c2 = None
     then Inl (Diagnostic
       ''Necessary loop information is not available(preheader, header, latch, pre exit, exit block).'')
     else
     let c3 = c2\<lparr>loop := lp\<rparr>;
         c4 = get_loop_memops uninit ir c3
     in get_loop_induction uninit_op ir c4 variables)"

subsection \<open>The transformer\<close>

text \<open>
  \<^verbatim>\<open>fuse_with_first\<close> changes the function only through calls into LLVM. Each call is
  recorded with its arguments, in the order in which the source makes it:
  \<^verbatim>\<open>b->getTerminator()->replaceUsesOfWith(from, to)\<close> is \<open>ReplaceUsesOfWith b from to\<close>,
  \<^verbatim>\<open>b->getTerminator()->eraseFromParent()\<close> is \<open>EraseTerminator b\<close>,
  \<^verbatim>\<open>DT->recalculate\<close> and \<^verbatim>\<open>PDT->recalculate\<close> are \<open>RecalculateDT\<close> and
  \<open>RecalculatePDT\<close>, \<^verbatim>\<open>LA->erase\<close> is \<open>EraseLoop\<close>. Block arguments are the pointers
  of the candidates as they are.
\<close>

datatype llvm_call =
    MoveInstructionsToTheEnd "nat option" "nat option"
  | ReplaceUsesOfWith "nat option" "nat option" "nat option"
  | EraseTerminator "nat option"
  | NewUnreachableInst "nat option"
  | RecalculateDT
  | RecalculatePDT
  | RemoveBlock "nat option"
  | MoveInstructionsToTheBeginning "nat option" "nat option"
  | MergeBlockIntoPredecessor "nat option"
  | AddBlockEntry nat nat
  | RemoveBlockFromLoop nat nat
  | ChangeLoopFor nat nat
  | EliminateUnreachableBlocks
  | EraseLoop nat

text \<open>
  What the pass can ask LLVM while it transforms: the function as the builder reads it,
  the innermost loop of a block (\<^verbatim>\<open>LA->getLoopFor\<close>) and the unique successor of a block.
  The state of the pass is this together with the calls made so far; what a call does to
  the answers is LLVM's, and is the parameter \<open>exec\<close> of the model.
\<close>

record LLVM =
  function_ir :: Function_IR
  getLoopFor :: "nat \<Rightarrow> nat option"
  getUniqueSuccessor :: "nat \<Rightarrow> nat option"

type_synonym pass_state = "LLVM \<times> llvm_call list"

definition call :: "(llvm_call \<Rightarrow> LLVM \<Rightarrow> LLVM) \<Rightarrow> llvm_call \<Rightarrow> pass_state \<Rightarrow> pass_state" where
  "call exec k s = (exec k (fst s), snd s @ [k])"



subsection \<open>The driver\<close>



record driver_params =
  exec_call :: "llvm_call \<Rightarrow> LLVM \<Rightarrow> LLVM"
  uninit_gep :: llvm_value
  uninit_op :: binary_ops
  fresh :: FusionCandidate
  variables_map :: "llvm_value \<rightharpoonup> llvm_value"




subsection \<open>The claim of the checker in the specification's words\<close>

text \<open>
  Two constants have the same bit pattern: integer constants of one type with one value,
  or floating-point constants of one type with one bit pattern.
\<close>

fun same_bit_pattern :: "llvm_constant \<Rightarrow> llvm_constant \<Rightarrow> bool" where
  "same_bit_pattern (ConstantInt t n) (ConstantInt t' n') \<longleftrightarrow> t = t' \<and> n = n'"
| "same_bit_pattern (ConstantFP t b) (ConstantFP t' b') \<longleftrightarrow> t = t' \<and> b = b'"
| "same_bit_pattern _ _ \<longleftrightarrow> False"

text \<open>
  One field of two induction descriptors as the claim compares it: both candidates record
  the same kinds, at least one, and what they record is equal, constants by bit pattern
  and variable references by identity.
\<close>

definition same_kind_and_equal ::
    "llvm_constant option \<Rightarrow> llvm_value option \<Rightarrow> llvm_constant option \<Rightarrow> llvm_value option \<Rightarrow> bool" where
  "same_kind_and_equal k1 v1 k2 v2 \<longleftrightarrow>
     (case (k1, k2) of (Some a, Some b) \<Rightarrow> same_bit_pattern a b
        | (None, None) \<Rightarrow> True | _ \<Rightarrow> False)
     \<and> (case (v1, v2) of (Some p, Some q) \<Rightarrow> p = q | (None, None) \<Rightarrow> True | _ \<Rightarrow> False)
     \<and> (k1 \<noteq> None \<or> v1 \<noteq> None)"

text \<open>
  One field as the checker compares it: the constants alone when both candidates record
  one, and else the variable references, which both candidates must then record.
\<close>

definition compared_equal ::
    "llvm_constant option \<Rightarrow> llvm_value option \<Rightarrow> llvm_constant option \<Rightarrow> llvm_value option \<Rightarrow> bool" where
  "compared_equal k1 v1 k2 v2 \<longleftrightarrow>
     (case (k1, k2) of (Some a, Some b) \<Rightarrow> same_bit_pattern a b
        | _ \<Rightarrow> (case (v1, v2) of (Some p, Some q) \<Rightarrow> p = q | _ \<Rightarrow> False))"

text \<open>
  A descriptor of the data model: each of stop, advance and start is either a constant or
  a variable reference, never both and never neither.
\<close>

definition one_kind :: "LoopInduction \<Rightarrow> bool" where
  "one_kind i \<longleftrightarrow>
     (stop_const i = None) \<noteq> (stop_variable i = None)
     \<and> (advance_const i = None) \<noteq> (advance_variable i = None)
     \<and> (start_const i = None) \<noteq> (start_variable i = None)"

subsection \<open>The claim of the collector in the specification's words\<close>

text \<open>
  The address operands of the loads of an instruction sequence, in order.
\<close>

fun load_operands :: "instruction list \<Rightarrow> llvm_value list" where
  "load_operands [] = []"
| "load_operands (LoadInst p vol # is) = p # load_operands is"
| "load_operands (_ # is) = load_operands is"

text \<open>
  The instructions of the header, and the instructions of the body blocks (the blocks of
  the loop other than header, latch and pre-exit), in the order of the loop's blocks.
\<close>

definition header_part :: "Function_IR \<Rightarrow> FusionCandidate \<Rightarrow> nat list \<Rightarrow> instruction list" where
  "header_part ir c bs = concat (map (block ir) (filter (\<lambda>BB. Some BB = header c) bs))"

definition body_part :: "Function_IR \<Rightarrow> FusionCandidate \<Rightarrow> nat list \<Rightarrow> instruction list" where
  "body_part ir c bs = concat (map (block ir) (filter (is_loop_body c) bs))"

definition header_insts :: "Function_IR \<Rightarrow> FusionCandidate \<Rightarrow> instruction list" where
  "header_insts ir c = header_part ir c (getBlocks (loops ir (loop c)))"

definition body_insts :: "Function_IR \<Rightarrow> FusionCandidate \<Rightarrow> instruction list" where
  "body_insts ir c = body_part ir c (getBlocks (loops ir (loop c)))"

text \<open>
  The pending address-computation slot: an address computation fills it with its base
  operand, overwriting what it held; a load or a store empties it. A load adds to the
  read-set the content of the slot if it holds one and its own address operand otherwise;
  a store does the same for the write-set.
\<close>

fun body_reads :: "llvm_value option \<Rightarrow> instruction list \<Rightarrow> llvm_value list" where
  "body_reads slot [] = []"
| "body_reads slot (LoadInst p vol # is) =
     (case slot of Some g \<Rightarrow> g | None \<Rightarrow> p) # body_reads None is"
| "body_reads slot (StoreInst v p vol # is) = body_reads None is"
| "body_reads slot (GetElementPtrInst b # is) = body_reads (Some b) is"
| "body_reads slot (_ # is) = body_reads slot is"

fun body_writes :: "llvm_value option \<Rightarrow> instruction list \<Rightarrow> llvm_value list" where
  "body_writes slot [] = []"
| "body_writes slot (LoadInst p vol # is) = body_writes None is"
| "body_writes slot (StoreInst v p vol # is) =
     (case slot of Some g \<Rightarrow> g | None \<Rightarrow> p) # body_writes None is"
| "body_writes slot (GetElementPtrInst b # is) = body_writes (Some b) is"
| "body_writes slot (_ # is) = body_writes slot is"

fun body_slot :: "llvm_value option \<Rightarrow> instruction list \<Rightarrow> llvm_value option" where
  "body_slot slot [] = slot"
| "body_slot slot (LoadInst p vol # is) = body_slot None is"
| "body_slot slot (StoreInst v p vol # is) = body_slot None is"
| "body_slot slot (GetElementPtrInst b # is) = body_slot (Some b) is"
| "body_slot slot (_ # is) = body_slot slot is"

text \<open>The slot that the two locals \<^verbatim>\<open>seen_gep\<close> and \<^verbatim>\<open>gep_operand\<close> stand for.\<close>

definition slot_of :: "memops_frame \<Rightarrow> llvm_value option" where
  "slot_of s = (if seen_gep s then Some (gep_operand s) else None)"

subsection \<open>The claims of the extractor and the builder in the specification's words\<close>

text \<open>The address operand of the first load of an instruction sequence, if it has a load.\<close>

definition first_load :: "instruction list \<Rightarrow> llvm_value option" where
  "first_load is = (case load_operands is of [] \<Rightarrow> None | p # _ \<Rightarrow> Some p)"

text \<open>
  The address operand of the first load that occurs before any comparison: the search
  stops without a result at the first comparison.
\<close>

fun first_load_before_comparison :: "instruction list \<Rightarrow> llvm_value option" where
  "first_load_before_comparison [] = None"
| "first_load_before_comparison (LoadInst p vol # is) = Some p"
| "first_load_before_comparison (ICmpInst a b # is) = None"
| "first_load_before_comparison (_ # is) = first_load_before_comparison is"

text \<open>Some body block of the loop holds a store whose target is the given value.\<close>

fun is_store_to :: "llvm_value \<Rightarrow> instruction \<Rightarrow> bool" where
  "is_store_to p (StoreInst v q vol) \<longleftrightarrow> q = p"
| "is_store_to p _ \<longleftrightarrow> False"

definition stored_in_body :: "Function_IR \<Rightarrow> FusionCandidate \<Rightarrow> llvm_value \<Rightarrow> bool" where
  "stored_in_body ir c p \<longleftrightarrow>
     list_ex (\<lambda>BB. is_loop_body c BB \<and> list_ex (is_store_to p) (block ir BB))
       (getBlocks (loops ir (loop c)))"

text \<open>
  The stored values of the stores of a block and the binary operations of a block (opcode
  and second operand), in order.
\<close>

fun store_values :: "instruction list \<Rightarrow> llvm_value list" where
  "store_values [] = []"
| "store_values (StoreInst v p vol # is) = v # store_values is"
| "store_values (_ # is) = store_values is"

fun binary_operations :: "instruction list \<Rightarrow> (binary_ops \<times> llvm_value) list" where
  "binary_operations [] = []"
| "binary_operations (BinaryOperator opc a b # is) = (opc, b) # binary_operations is"
| "binary_operations (_ # is) = binary_operations is"

fun const_int_of :: "llvm_value \<Rightarrow> llvm_constant option" where
  "const_int_of (Const (ConstantInt t n)) = Some (ConstantInt t n)"
| "const_int_of _ = None"

definition is_const_int :: "llvm_value \<Rightarrow> bool" where
  "is_const_int v \<longleftrightarrow> const_int_of v \<noteq> None"

text \<open>
  What one operand alone records in a field of the descriptor: its constant if it is an
  integer constant, and otherwise the variable that the variable map gives for it.
\<close>

definition recorded_by :: "(llvm_value \<rightharpoonup> llvm_value) \<Rightarrow> llvm_value
    \<Rightarrow> llvm_constant option \<times> llvm_value option" where
  "recorded_by variables v = (if is_const_int v then (const_int_of v, None) else (None, variables v))"

text \<open>
  The constant of the last integer-constant operand of a sequence of operands, and the
  variable of its last operand that is not an integer constant.
\<close>

definition last_const :: "llvm_value list \<Rightarrow> llvm_constant option" where
  "last_const vs =
     (if filter is_const_int vs = [] then None else const_int_of (last (filter is_const_int vs)))"

definition last_variable :: "(llvm_value \<rightharpoonup> llvm_value) \<Rightarrow> llvm_value list \<Rightarrow> llvm_value option" where
  "last_variable variables vs =
     (if filter (\<lambda>v. \<not> is_const_int v) vs = [] then None
      else variables (last (filter (\<lambda>v. \<not> is_const_int v) vs)))"

text \<open>Two candidates that differ at most in their write-set and read-set.\<close>

definition same_blocks :: "FusionCandidate \<Rightarrow> FusionCandidate \<Rightarrow> bool" where
  "same_blocks c c' \<longleftrightarrow>
     loop c' = loop c \<and> preheader c' = preheader c \<and> header c' = header c
     \<and> pre_exit c' = pre_exit c \<and> exit c' = exit c \<and> latch c' = latch c
     \<and> induction c' = induction c"

subsection \<open>The claim of the transformer in the specification's words\<close>





section \<open>Example inputs\<close>

text \<open>
  The two loops of \<^verbatim>\<open>tests/loop_fusion_int_mult.c\<close>: each counts \<^verbatim>\<open>i\<close> from 1 while
  \<^verbatim>\<open>i < 0xFFFF\<close>, multiplying by 2. Values 10 to 14 are the stack slots of
  \<^verbatim>\<open>x\<close>, \<^verbatim>\<open>y\<close>, the two counters and \<^verbatim>\<open>n\<close>.
\<close>

definition i32 :: llvm_type where
  "i32 = IntegerTy 32"

definition ind_mult :: "nat \<Rightarrow> LoopInduction" where
  "ind_mult iv = \<lparr>induction_variable = Some (InstValue iv),
     start_const = Some (ConstantInt i32 1), start_variable = None,
     stop_const = Some (ConstantInt i32 65535), stop_variable = None,
     advance_const = Some (ConstantInt i32 2), advance_variable = None,
     advance_op = Mul\<rparr>"

definition cand_x :: FusionCandidate where
  "cand_x = \<lparr>loop = 1, preheader = Some 0, header = Some 1, pre_exit = Some 1,
     exit = Some 4, latch = Some 3, induction = ind_mult 12,
     writes = [InstValue 12, InstValue 10], reads = [InstValue 10, InstValue 12]\<rparr>"

definition cand_y :: FusionCandidate where
  "cand_y = \<lparr>loop = 2, preheader = Some 4, header = Some 5, pre_exit = Some 5,
     exit = Some 8, latch = Some 7, induction = ind_mult 13,
     writes = [InstValue 13, InstValue 11], reads = [InstValue 11, InstValue 13]\<rparr>"

text \<open>
  The second loop with the stop constant \<^verbatim>\<open>0xFF\<close>, and with a stop that is a variable
  reference (the slot of \<^verbatim>\<open>n\<close>) instead of a constant.
\<close>

definition cand_y_short :: FusionCandidate where
  "cand_y_short = cand_y\<lparr>induction := (ind_mult 13)\<lparr>stop_const := Some (ConstantInt i32 255)\<rparr>\<rparr>"

definition cand_y_var :: FusionCandidate where
  "cand_y_var = cand_y\<lparr>induction :=
     (ind_mult 13)\<lparr>stop_const := None, stop_variable := Some (InstValue 14)\<rparr>\<rparr>"

text \<open>A third loop after \<open>cand_y\<close> that reads \<^verbatim>\<open>x\<close>, which \<open>cand_x\<close> writes.\<close>

definition cand_z :: FusionCandidate where
  "cand_z = \<lparr>loop = 3, preheader = Some 8, header = Some 9, pre_exit = Some 9,
     exit = Some 20, latch = Some 19, induction = ind_mult 15,
     writes = [InstValue 15, InstValue 16], reads = [InstValue 10, InstValue 15]\<rparr>"

text \<open>
  A loop whose header is also its exiting block, as a \<^verbatim>\<open>while\<close> loop has it:
  \<^verbatim>\<open>i = 1; while (i < 0xFFFF) { i = i * 2; if (n) y = 0; x = x + 1; }\<close>.
  Block 0 is the preheader, 1 the header and exiting block, 2 and 3 the body, 4 the latch,
  5 the exit. Values 10, 11, 12 and 14 are the stack slots of \<^verbatim>\<open>x\<close>, \<^verbatim>\<open>y\<close>,
  \<^verbatim>\<open>i\<close> and \<^verbatim>\<open>n\<close>; values from 20 are results of loads and operators.
\<close>

definition c32 :: "nat \<Rightarrow> llvm_value" where
  "c32 n = Const (ConstantInt i32 n)"

definition while_blocks :: "nat \<Rightarrow> instruction list" where
  "while_blocks BB =
    (if BB = 0 then
       [StoreInst (Argument 0) (InstValue 14) False,
        StoreInst (c32 1) (InstValue 10) False,
        StoreInst (c32 1) (InstValue 11) False,
        StoreInst (c32 1) (InstValue 12) False,
        OtherInst False]
     else if BB = 1 then
       [LoadInst (InstValue 12) False,
        ICmpInst (InstValue 20) (c32 65535),
        OtherInst False]
     else if BB = 2 then
       [LoadInst (InstValue 12) False,
        BinaryOperator Mul (InstValue 21) (c32 2),
        StoreInst (InstValue 22) (InstValue 12) False,
        LoadInst (InstValue 14) False,
        ICmpInst (InstValue 23) (c32 0),
        OtherInst False]
     else if BB = 3 then
       [StoreInst (c32 0) (InstValue 11) False,
        OtherInst False]
     else if BB = 4 then
       [LoadInst (InstValue 10) False,
        BinaryOperator Add (InstValue 24) (c32 1),
        StoreInst (InstValue 25) (InstValue 10) False,
        OtherInst False]
     else [OtherInst False])"

definition while_loop :: Loop where
  "while_loop = \<lparr>getBlocks = [1, 2, 3, 4], getLoopPreheader = Some 0,
     getUniqueExitBlock = Some 5, getHeader = Some 1, getLoopLatch = Some 4,
     getExitingBlock = Some 1, isAnnotatedParallel = False\<rparr>"

definition while_ir :: Function_IR where
  "while_ir = \<lparr>block = while_blocks, loops = (\<lambda>_. while_loop)\<rparr>"

text \<open>The variable map of that function: each load result, mapped to the slot it loads.\<close>

definition while_variables :: "llvm_value \<rightharpoonup> llvm_value" where
  "while_variables = map_of
     [(InstValue 20, InstValue 12), (InstValue 21, InstValue 12),
      (InstValue 23, InstValue 14), (InstValue 24, InstValue 10)]"

text \<open>
  The struct \<^verbatim>\<open>FusionCandidate current;\<close> as the driver declares it: empty arrays, and
  some content in every other field.
\<close>

definition fresh_candidate :: FusionCandidate where
  "fresh_candidate = \<lparr>loop = 0, preheader = None, header = None, pre_exit = None,
     exit = None, latch = None, induction = locals_init Add, writes = [], reads = []\<rparr>"

text \<open>The candidate of that loop once the builder has filled in its blocks.\<close>

definition while_cand :: FusionCandidate where
  "while_cand = fresh_candidate\<lparr>loop := 1, preheader := Some 0, header := Some 1,
     pre_exit := Some 1, exit := Some 5, latch := Some 4\<rparr>"

text \<open>What the extractor returns for it.\<close>

definition while_extracted :: FusionCandidate where
  "while_extracted = while_cand\<lparr>induction := \<lparr>induction_variable = Some (InstValue 12),
       start_const = Some (ConstantInt i32 1), start_variable = None,
       stop_const = Some (ConstantInt i32 65535), stop_variable = None,
       advance_const = Some (ConstantInt i32 1), advance_variable = None,
       advance_op = Add\<rparr>\<rparr>"

text \<open>What the builder returns for it.\<close>

definition while_result :: FusionCandidate where
  "while_result = \<lparr>loop = 1, preheader = Some 0, header = Some 1, pre_exit = Some 1,
     exit = Some 5, latch = Some 4,
     induction = \<lparr>induction_variable = Some (InstValue 12),
       start_const = Some (ConstantInt i32 1), start_variable = None,
       stop_const = Some (ConstantInt i32 65535), stop_variable = None,
       advance_const = Some (ConstantInt i32 1), advance_variable = None,
       advance_op = Add\<rparr>,
     writes = [InstValue 12, InstValue 12, InstValue 11],
     reads = [InstValue 12, InstValue 14]\<rparr>"

text \<open>
  The same loop with a header that compares the argument before it loads the counter:
  \<^verbatim>\<open>%c = icmp slt i32 %n, 65535; %v = load i32, ptr %i; br i1 %c, ...\<close>.
\<close>

definition late_load_ir :: Function_IR where
  "late_load_ir = \<lparr>block = while_blocks
      (1 := [ICmpInst (Argument 0) (c32 65535), LoadInst (InstValue 12) False, OtherInst False]),
     loops = (\<lambda>_. while_loop)\<rparr>"

text \<open>
  The same loop after \<^verbatim>\<open>int i = 1; int t = n;\<close>: the preheader stores the constant 1
  and then a loaded value (value 26, loaded from the slot of \<^verbatim>\<open>n\<close>) into the slot of
  \<^verbatim>\<open>t\<close> (value 15); and with a latch that computes \<^verbatim>\<open>x * 2 + n\<close>.
\<close>

definition mixed_ir :: Function_IR where
  "mixed_ir = \<lparr>block = while_blocks
      (0 := [StoreInst (c32 1) (InstValue 12) False,
             LoadInst (InstValue 14) False,
             StoreInst (InstValue 26) (InstValue 15) False,
             OtherInst False],
       4 := [LoadInst (InstValue 10) False,
             BinaryOperator Mul (InstValue 24) (c32 2),
             LoadInst (InstValue 14) False,
             BinaryOperator Add (InstValue 27) (InstValue 28),
             StoreInst (InstValue 29) (InstValue 10) False,
             OtherInst False]),
     loops = (\<lambda>_. while_loop)\<rparr>"

definition mixed_variables :: "llvm_value \<rightharpoonup> llvm_value" where
  "mixed_variables = map_of
     [(InstValue 20, InstValue 12), (InstValue 21, InstValue 12),
      (InstValue 23, InstValue 14), (InstValue 24, InstValue 10),
      (InstValue 26, InstValue 14), (InstValue 28, InstValue 14)]"

definition mixed_result :: FusionCandidate where
  "mixed_result = while_cand\<lparr>induction := \<lparr>induction_variable = Some (InstValue 12),
       start_const = Some (ConstantInt i32 1), start_variable = Some (InstValue 14),
       stop_const = Some (ConstantInt i32 65535), stop_variable = None,
       advance_const = Some (ConstantInt i32 2), advance_variable = Some (InstValue 14),
       advance_op = Add\<rparr>\<rparr>"

text \<open>
  The same again after \<^verbatim>\<open>int i = 1; int t = m;\<close>: the loaded value (value 30) comes
  from the slot of another variable \<^verbatim>\<open>m\<close> (value 16).
\<close>

definition mixed_other_ir :: Function_IR where
  "mixed_other_ir = \<lparr>block = (block mixed_ir)
      (0 := [StoreInst (c32 1) (InstValue 12) False,
             LoadInst (InstValue 16) False,
             StoreInst (InstValue 30) (InstValue 15) False,
             OtherInst False]),
     loops = (\<lambda>_. while_loop)\<rparr>"

definition mixed_other_variables :: "llvm_value \<rightharpoonup> llvm_value" where
  "mixed_other_variables = mixed_variables(InstValue 30 \<mapsto> InstValue 16)"

definition mixed_other_result :: FusionCandidate where
  "mixed_other_result = while_cand\<lparr>induction := \<lparr>induction_variable = Some (InstValue 12),
       start_const = Some (ConstantInt i32 1), start_variable = Some (InstValue 16),
       stop_const = Some (ConstantInt i32 65535), stop_variable = None,
       advance_const = Some (ConstantInt i32 2), advance_variable = Some (InstValue 14),
       advance_op = Add\<rparr>\<rparr>"

text \<open>
  A header without a load: \<^verbatim>\<open>%c = icmp slt i32 %n, 65535; br i1 %c, ...\<close>.
\<close>

definition no_load_ir :: Function_IR where
  "no_load_ir = \<lparr>block = while_blocks
      (1 := [ICmpInst (Argument 0) (c32 65535), OtherInst False]),
     loops = (\<lambda>_. while_loop)\<rparr>"

text \<open>
  The first loop of \<^verbatim>\<open>tests/loop_fusion_int_mult.c\<close> as a \<^verbatim>\<open>for\<close> loop is laid out:
  block 0 the preheader, 1 the header and exiting block (\<^verbatim>\<open>for.cond\<close>), 2 to 4 the body
  with its short-circuit \<^verbatim>\<open>&&\<close>, 5 the latch (\<^verbatim>\<open>for.inc\<close>), where alone the counter
  is stored, 6 the exit.
\<close>

definition for_blocks :: "nat \<Rightarrow> instruction list" where
  "for_blocks BB =
    (if BB = 0 then
       [StoreInst (Argument 0) (InstValue 14) False,
        StoreInst (c32 1) (InstValue 10) False,
        StoreInst (c32 1) (InstValue 11) False,
        StoreInst (c32 1) (InstValue 12) False,
        OtherInst False]
     else if BB = 1 then
       [LoadInst (InstValue 12) False,
        ICmpInst (InstValue 20) (c32 65535),
        OtherInst False]
     else if BB = 2 then
       [LoadInst (InstValue 10) False,
        ICmpInst (InstValue 21) (c32 0),
        OtherInst False]
     else if BB = 3 then
       [LoadInst (InstValue 12) False,
        BinaryOperator SRem (InstValue 22) (c32 5),
        ICmpInst (InstValue 23) (c32 2),
        OtherInst False]
     else if BB = 4 then
       [OtherInst False,
        OtherInst False,
        StoreInst (InstValue 26) (InstValue 10) False,
        OtherInst False]
     else if BB = 5 then
       [LoadInst (InstValue 12) False,
        BinaryOperator Mul (InstValue 27) (c32 2),
        StoreInst (InstValue 28) (InstValue 12) False,
        OtherInst False]
     else [OtherInst False])"

definition for_loop :: Loop where
  "for_loop = \<lparr>getBlocks = [1, 2, 3, 4, 5], getLoopPreheader = Some 0,
     getUniqueExitBlock = Some 6, getHeader = Some 1, getLoopLatch = Some 5,
     getExitingBlock = Some 1, isAnnotatedParallel = False\<rparr>"

definition for_ir :: Function_IR where
  "for_ir = \<lparr>block = for_blocks, loops = (\<lambda>_. for_loop)\<rparr>"

definition for_cand :: FusionCandidate where
  "for_cand = fresh_candidate\<lparr>loop := 1, preheader := Some 0, header := Some 1,
     pre_exit := Some 1, exit := Some 6, latch := Some 5\<rparr>"









section \<open>The legality checker: theorems\<close>

lemma are_constants_equal_Some:
  "are_constants_equal (Some a) (Some b) \<longleftrightarrow> same_bit_pattern a b"
  by (cases a; cases b) auto

lemma stop_block_iff:
  "stop_block i1 i2 = None \<longleftrightarrow>
     compared_equal (stop_const i1) (stop_variable i1) (stop_const i2) (stop_variable i2)"
  by (auto simp: stop_block_def compared_equal_def are_constants_equal_Some
      simp del: are_constants_equal.simps split: option.splits)

lemma advance_block_iff:
  "advance_block i1 i2 = None \<longleftrightarrow>
     compared_equal (advance_const i1) (advance_variable i1) (advance_const i2) (advance_variable i2)"
  by (auto simp: advance_block_def compared_equal_def are_constants_equal_Some
      simp del: are_constants_equal.simps split: option.splits)

lemma start_block_iff:
  "start_block i1 i2 = None \<longleftrightarrow>
     compared_equal (start_const i1) (start_variable i1) (start_const i2) (start_variable i2)"
  by (auto simp: start_block_def compared_equal_def are_constants_equal_Some
      simp del: are_constants_equal.simps split: option.splits)

lemma advance_op_block_iff: "advance_op_block i1 i2 = None \<longleftrightarrow> advance_op i1 = advance_op i2"
  by (simp add: advance_op_block_def)

lemma compared_equal_one_kind:
  assumes "(k1 = None) \<noteq> (v1 = None)" and "(k2 = None) \<noteq> (v2 = None)"
  shows "compared_equal k1 v1 k2 v2 \<longleftrightarrow> same_kind_and_equal k1 v1 k2 v2"
  using assms
  by (cases k1; cases k2; cases v1; cases v2)
    (simp_all add: compared_equal_def same_kind_and_equal_def)

lemma same_loop_evolution_blocks:
  "same_loop_evolution c1 c2 = Inr () \<longleftrightarrow>
     stop_block (induction c1) (induction c2) = None
     \<and> advance_block (induction c1) (induction c2) = None
     \<and> advance_op_block (induction c1) (induction c2) = None
     \<and> start_block (induction c1) (induction c2) = None"
  by (simp add: same_loop_evolution_def Let_def split: option.splits)

lemma dependent_iff:
  "dependent c1 c2 \<longleftrightarrow>
     set (writes c1) \<inter> (set (writes c2) \<union> set (reads c2)) \<noteq> {}
     \<or> set (writes c2) \<inter> set (reads c1) \<noteq> {}"
  by (auto simp: dependent_def list_ex_iff)

text \<open>
  C1. If some element of one candidate's write-set is the same value as an element of the
  other candidate's write-set or read-set, in either direction, then \<open>dependent\<close> is
  true and \<open>can_be_fused\<close> is false, whatever \<open>same_loop_evolution\<close> and
  \<open>adjacent\<close> say.
\<close>

theorem write_overlap_blocks_fusion:
  assumes "(\<exists>w \<in> set (writes c1). w \<in> set (writes c2) \<or> w \<in> set (reads c2))
           \<or> (\<exists>w \<in> set (writes c2). w \<in> set (writes c1) \<or> w \<in> set (reads c1))"
  shows "dependent c1 c2 \<and> \<not> can_be_fused c1 c2"
proof -
  from assms have "dependent c1 c2"
    unfolding dependent_iff by blast
  then show ?thesis
    by (simp add: can_be_fused_def)
qed

theorem write_overlap_blocks_fusion_witness:
  "InstValue 10 \<in> set (writes cand_x) \<and> InstValue 10 \<in> set (reads cand_z)
   \<and> same_loop_evolution cand_x cand_z = Inr ()
   \<and> dependent cand_x cand_z \<and> \<not> can_be_fused cand_x cand_z"
proof -
  have w: "InstValue 10 \<in> set (writes cand_x)" and r: "InstValue 10 \<in> set (reads cand_z)"
    by (simp_all add: cand_x_def cand_z_def)
  have e: "same_loop_evolution cand_x cand_z = Inr ()"
    by (simp add: same_loop_evolution_blocks stop_block_def advance_block_def
        advance_op_block_def start_block_def cand_x_def cand_z_def ind_mult_def)
  from w r have "(\<exists>w \<in> set (writes cand_x). w \<in> set (writes cand_z) \<or> w \<in> set (reads cand_z))
      \<or> (\<exists>w \<in> set (writes cand_z). w \<in> set (writes cand_x) \<or> w \<in> set (reads cand_x))"
    by blast
  from write_overlap_blocks_fusion [OF this] w r e show ?thesis
    by blast
qed

lemma stop_block_unequal:
  "stop_const i1 = Some a \<Longrightarrow> stop_const i2 = Some b \<Longrightarrow> \<not> same_bit_pattern a b \<Longrightarrow>
     stop_block i1 i2 = Some ''Loop stops are not equal''"
  by (simp add: stop_block_def are_constants_equal_Some del: are_constants_equal.simps)

lemma stop_block_kinds:
  "stop_const i1 = None \<or> stop_const i2 = None \<Longrightarrow>
   stop_variable i1 = None \<or> stop_variable i2 = None \<Longrightarrow>
     stop_block i1 i2 = Some ''Loop stops are not the same kinds of values''"
  by (auto simp: stop_block_def)

lemma same_loop_evolution_stop:
  "stop_block (induction c1) (induction c2) = Some line \<Longrightarrow> same_loop_evolution c1 c2 = Inl line"
  by (simp add: same_loop_evolution_def)

text \<open>
  C2 (as amended). \<open>same_loop_evolution\<close> returns true exactly when stop, advance and
  start each compare equal and the two \<open>advance_op\<close> tags are equal, where a field is
  compared like this: if both candidates record a constant, the two constants must have
  the same type and bit pattern and the variable references are not looked at; otherwise
  both candidates must record a variable reference and the two references must be the
  same value. For candidates whose descriptors record exactly one kind in each field this
  is the claim as it was stated: each field has the same kind in both candidates and
  equal content. For the stop, which is checked first: two stop constants with different
  bit patterns give false with the line "Loop stops are not equal", and stops of which
  neither kind is recorded by both candidates give false with the line "Loop stops are
  not the same kinds of values".
\<close>

theorem same_loop_evolution_compares_constants_first:
  "(same_loop_evolution c1 c2 = Inr () \<longleftrightarrow>
      compared_equal (stop_const (induction c1)) (stop_variable (induction c1))
           (stop_const (induction c2)) (stop_variable (induction c2))
      \<and> compared_equal (advance_const (induction c1)) (advance_variable (induction c1))
           (advance_const (induction c2)) (advance_variable (induction c2))
      \<and> advance_op (induction c1) = advance_op (induction c2)
      \<and> compared_equal (start_const (induction c1)) (start_variable (induction c1))
           (start_const (induction c2)) (start_variable (induction c2)))
   \<and> (one_kind (induction c1) \<and> one_kind (induction c2) \<longrightarrow>
       (same_loop_evolution c1 c2 = Inr () \<longleftrightarrow>
          same_kind_and_equal (stop_const (induction c1)) (stop_variable (induction c1))
             (stop_const (induction c2)) (stop_variable (induction c2))
          \<and> same_kind_and_equal (advance_const (induction c1)) (advance_variable (induction c1))
             (advance_const (induction c2)) (advance_variable (induction c2))
          \<and> advance_op (induction c1) = advance_op (induction c2)
          \<and> same_kind_and_equal (start_const (induction c1)) (start_variable (induction c1))
             (start_const (induction c2)) (start_variable (induction c2))))
   \<and> (stop_const (induction c1) = Some a \<and> stop_const (induction c2) = Some b
        \<and> \<not> same_bit_pattern a b \<longrightarrow>
      same_loop_evolution c1 c2 = Inl ''Loop stops are not equal'')
   \<and> ((stop_const (induction c1) = None \<or> stop_const (induction c2) = None)
        \<and> (stop_variable (induction c1) = None \<or> stop_variable (induction c2) = None) \<longrightarrow>
      same_loop_evolution c1 c2 = Inl ''Loop stops are not the same kinds of values'')"
proof (intro conjI impI)
  show exact: "same_loop_evolution c1 c2 = Inr () \<longleftrightarrow>
      compared_equal (stop_const (induction c1)) (stop_variable (induction c1))
           (stop_const (induction c2)) (stop_variable (induction c2))
      \<and> compared_equal (advance_const (induction c1)) (advance_variable (induction c1))
           (advance_const (induction c2)) (advance_variable (induction c2))
      \<and> advance_op (induction c1) = advance_op (induction c2)
      \<and> compared_equal (start_const (induction c1)) (start_variable (induction c1))
           (start_const (induction c2)) (start_variable (induction c2))"
    unfolding same_loop_evolution_blocks
    by (simp only: stop_block_iff advance_block_iff advance_op_block_iff start_block_iff)
  assume "one_kind (induction c1) \<and> one_kind (induction c2)"
  then have k1: "one_kind (induction c1)" and k2: "one_kind (induction c2)"
    by simp_all
  have "compared_equal (stop_const (induction c1)) (stop_variable (induction c1))
           (stop_const (induction c2)) (stop_variable (induction c2))
        = same_kind_and_equal (stop_const (induction c1)) (stop_variable (induction c1))
           (stop_const (induction c2)) (stop_variable (induction c2))"
    using k1 k2 by (intro compared_equal_one_kind) (simp_all add: one_kind_def)
  moreover have "compared_equal (advance_const (induction c1)) (advance_variable (induction c1))
           (advance_const (induction c2)) (advance_variable (induction c2))
        = same_kind_and_equal (advance_const (induction c1)) (advance_variable (induction c1))
           (advance_const (induction c2)) (advance_variable (induction c2))"
    using k1 k2 by (intro compared_equal_one_kind) (simp_all add: one_kind_def)
  moreover have "compared_equal (start_const (induction c1)) (start_variable (induction c1))
           (start_const (induction c2)) (start_variable (induction c2))
        = same_kind_and_equal (start_const (induction c1)) (start_variable (induction c1))
           (start_const (induction c2)) (start_variable (induction c2))"
    using k1 k2 by (intro compared_equal_one_kind) (simp_all add: one_kind_def)
  ultimately show "same_loop_evolution c1 c2 = Inr () \<longleftrightarrow>
          same_kind_and_equal (stop_const (induction c1)) (stop_variable (induction c1))
             (stop_const (induction c2)) (stop_variable (induction c2))
          \<and> same_kind_and_equal (advance_const (induction c1)) (advance_variable (induction c1))
             (advance_const (induction c2)) (advance_variable (induction c2))
          \<and> advance_op (induction c1) = advance_op (induction c2)
          \<and> same_kind_and_equal (start_const (induction c1)) (start_variable (induction c1))
             (start_const (induction c2)) (start_variable (induction c2))"
    unfolding exact by simp
next
  assume "stop_const (induction c1) = Some a \<and> stop_const (induction c2) = Some b
        \<and> \<not> same_bit_pattern a b"
  then have "stop_block (induction c1) (induction c2) = Some ''Loop stops are not equal''"
    by (simp add: stop_block_unequal)
  then show "same_loop_evolution c1 c2 = Inl ''Loop stops are not equal''"
    by (rule same_loop_evolution_stop)
next
  assume "(stop_const (induction c1) = None \<or> stop_const (induction c2) = None)
        \<and> (stop_variable (induction c1) = None \<or> stop_variable (induction c2) = None)"
  then have "stop_block (induction c1) (induction c2)
      = Some ''Loop stops are not the same kinds of values''"
    by (simp add: stop_block_kinds)
  then show "same_loop_evolution c1 c2 = Inl ''Loop stops are not the same kinds of values''"
    by (rule same_loop_evolution_stop)
qed

theorem same_loop_evolution_compares_constants_first_witness:
  "one_kind (induction cand_x) \<and> one_kind (induction cand_y)
   \<and> same_loop_evolution cand_x cand_y = Inr ()
   \<and> same_kind_and_equal (stop_const (induction cand_x)) (stop_variable (induction cand_x))
           (stop_const (induction cand_y)) (stop_variable (induction cand_y))
   \<and> same_kind_and_equal (advance_const (induction cand_x)) (advance_variable (induction cand_x))
           (advance_const (induction cand_y)) (advance_variable (induction cand_y))
   \<and> same_kind_and_equal (start_const (induction cand_x)) (start_variable (induction cand_x))
           (start_const (induction cand_y)) (start_variable (induction cand_y))
   \<and> advance_op (induction cand_x) = advance_op (induction cand_y)
   \<and> stop_const (induction cand_x) = Some (ConstantInt i32 65535)
   \<and> stop_const (induction cand_y_short) = Some (ConstantInt i32 255)
   \<and> \<not> same_bit_pattern (ConstantInt i32 65535) (ConstantInt i32 255)
   \<and> same_loop_evolution cand_x cand_y_short = Inl ''Loop stops are not equal''
   \<and> stop_const (induction cand_y_var) = None \<and> stop_variable (induction cand_x) = None
   \<and> same_loop_evolution cand_x cand_y_var = Inl ''Loop stops are not the same kinds of values''"
proof -
  have o: "one_kind (induction cand_x)" "one_kind (induction cand_y)"
    by (simp_all add: one_kind_def cand_x_def cand_y_def ind_mult_def)
  have e: "same_loop_evolution cand_x cand_y = Inr ()"
    by (simp add: same_loop_evolution_blocks stop_block_def advance_block_def
        advance_op_block_def start_block_def cand_x_def cand_y_def ind_mult_def)
  have k: "stop_const (induction cand_x) = Some (ConstantInt i32 65535)"
    "stop_const (induction cand_y_short) = Some (ConstantInt i32 255)"
    "\<not> same_bit_pattern (ConstantInt i32 65535) (ConstantInt i32 255)"
    by (simp_all add: cand_x_def cand_y_short_def ind_mult_def)
  have v: "stop_const (induction cand_y_var) = None" "stop_variable (induction cand_x) = None"
    by (simp_all add: cand_x_def cand_y_var_def ind_mult_def)
  note w1 = same_loop_evolution_compares_constants_first [of cand_x cand_y,
      THEN conjunct2, THEN conjunct1, rule_format, OF conjI [OF o], THEN iffD1, OF e]
  note w2 = same_loop_evolution_compares_constants_first [of cand_x cand_y_short
      "ConstantInt i32 65535" "ConstantInt i32 255",
      THEN conjunct2, THEN conjunct2, THEN conjunct1, rule_format,
      OF conjI [OF k(1) conjI [OF k(2) k(3)]]]
  note w3 = same_loop_evolution_compares_constants_first [of cand_x cand_y_var,
      THEN conjunct2, THEN conjunct2, THEN conjunct2, rule_format,
      OF conjI [OF disjI2 [OF v(1)] disjI1 [OF v(2)]]]
  show ?thesis
    by (intro conjI o e k v w2 w3 w1 [THEN conjunct1] w1 [THEN conjunct2, THEN conjunct1]
        w1 [THEN conjunct2, THEN conjunct2, THEN conjunct1]
        w1 [THEN conjunct2, THEN conjunct2, THEN conjunct2])
qed

text \<open>
  C3. \<open>adjacent c1 c2\<close> is true exactly when the exit block of \<open>c1\<close> is the very block
  that is the preheader of \<open>c2\<close>; when they are different blocks (a block lies between
  them), \<open>adjacent\<close> is false and so is \<open>can_be_fused\<close>.
\<close>

theorem adjacent_is_block_identity:
  "(adjacent c1 c2 \<longleftrightarrow> exit c1 = preheader c2)
   \<and> (exit c1 \<noteq> preheader c2 \<longrightarrow> \<not> adjacent c1 c2 \<and> \<not> can_be_fused c1 c2)"
  by (simp add: adjacent_def can_be_fused_def)

theorem adjacent_is_block_identity_witness:
  "exit cand_x \<noteq> preheader cand_z \<and> \<not> adjacent cand_x cand_z \<and> \<not> can_be_fused cand_x cand_z
   \<and> exit cand_x = preheader cand_y \<and> adjacent cand_x cand_y"
proof -
  have n: "exit cand_x \<noteq> preheader cand_z" and y: "exit cand_x = preheader cand_y"
    by (simp_all add: cand_x_def cand_y_def cand_z_def)
  from adjacent_is_block_identity [of cand_x cand_z] adjacent_is_block_identity [of cand_x cand_y]
    n y show ?thesis
    by blast
qed

text \<open>
  C10. \<open>dependent\<close> is symmetric in its two candidates.
\<close>

theorem dependent_symmetric: "dependent c1 c2 = dependent c2 c1"
  unfolding dependent_iff by blast

section \<open>The memory operation collector: theorems\<close>

lemma candidate_push [simp]:
  "writes (candidate (writes_push_back v s)) = writes (candidate s) @ [v]"
  "reads (candidate (writes_push_back v s)) = reads (candidate s)"
  "writes (candidate (reads_push_back v s)) = writes (candidate s)"
  "reads (candidate (reads_push_back v s)) = reads (candidate s) @ [v]"
  "header (candidate (writes_push_back v s)) = header (candidate s)"
  "header (candidate (reads_push_back v s)) = header (candidate s)"
  "latch (candidate (writes_push_back v s)) = latch (candidate s)"
  "latch (candidate (reads_push_back v s)) = latch (candidate s)"
  "pre_exit (candidate (writes_push_back v s)) = pre_exit (candidate s)"
  "pre_exit (candidate (reads_push_back v s)) = pre_exit (candidate s)"
  "seen_gep (writes_push_back v s) = seen_gep s"
  "seen_gep (reads_push_back v s) = seen_gep s"
  "gep_operand (writes_push_back v s) = gep_operand s"
  "gep_operand (reads_push_back v s) = gep_operand s"
  "header_seen_load (writes_push_back v s) = header_seen_load s"
  "header_seen_load (reads_push_back v s) = header_seen_load s"
  by (simp_all add: writes_push_back_def reads_push_back_def)

lemma slot_of_simps [simp]:
  "slot_of (writes_push_back v s) = slot_of s"
  "slot_of (reads_push_back v s) = slot_of s"
  "slot_of (s\<lparr>header_seen_load := b\<rparr>) = slot_of s"
  "slot_of (s\<lparr>seen_gep := False\<rparr>) = None"
  "slot_of (s\<lparr>gep_operand := g, seen_gep := True\<rparr>) = Some g"
  by (simp_all add: slot_of_def)

lemma slot_of_seen: "seen_gep s \<Longrightarrow> slot_of s = Some (gep_operand s)"
  and slot_of_unseen: "\<not> seen_gep s \<Longrightarrow> slot_of s = None"
  by (simp_all add: slot_of_def)

lemma is_loop_body_cong:
  "header c' = header c \<Longrightarrow> latch c' = latch c \<Longrightarrow> pre_exit c' = pre_exit c \<Longrightarrow>
   is_loop_body c' = is_loop_body c"
  by (simp add: is_loop_body_def fun_eq_iff)

lemma fold_body_instr:
  "writes (candidate (fold body_instr is s)) = writes (candidate s) @ body_writes (slot_of s) is
   \<and> reads (candidate (fold body_instr is s)) = reads (candidate s) @ body_reads (slot_of s) is
   \<and> slot_of (fold body_instr is s) = body_slot (slot_of s) is
   \<and> header_seen_load (fold body_instr is s) = header_seen_load s
   \<and> header (candidate (fold body_instr is s)) = header (candidate s)
   \<and> latch (candidate (fold body_instr is s)) = latch (candidate s)
   \<and> pre_exit (candidate (fold body_instr is s)) = pre_exit (candidate s)"
proof (induction "is" arbitrary: s)
  case Nil
  show ?case by simp
next
  case (Cons i "is")
  show ?case
    by (cases i) (simp_all add: Cons.IH slot_of_seen slot_of_unseen)
qed

lemma fold_header_instr:
  "writes (candidate (fold header_instr is s)) =
     writes (candidate s) @ (if header_seen_load s then [] else take 1 (load_operands is))
   \<and> reads (candidate (fold header_instr is s)) =
     reads (candidate s) @ (if header_seen_load s then load_operands is else drop 1 (load_operands is))
   \<and> header_seen_load (fold header_instr is s) = (header_seen_load s \<or> load_operands is \<noteq> [])
   \<and> slot_of (fold header_instr is s) = slot_of s
   \<and> header (candidate (fold header_instr is s)) = header (candidate s)
   \<and> latch (candidate (fold header_instr is s)) = latch (candidate s)
   \<and> pre_exit (candidate (fold header_instr is s)) = pre_exit (candidate s)"
proof (induction "is" arbitrary: s)
  case Nil
  show ?case by simp
next
  case (Cons i "is")
  show ?case
    by (cases i) (simp_all add: Cons.IH slot_of_seen slot_of_unseen)
qed

lemma load_operands_append: "load_operands (xs @ ys) = load_operands xs @ load_operands ys"
  by (induction xs rule: load_operands.induct) simp_all

lemma body_slot_append: "body_slot slot (xs @ ys) = body_slot (body_slot slot xs) ys"
  by (induction slot xs rule: body_slot.induct) simp_all

lemma body_writes_append:
  "body_writes slot (xs @ ys) = body_writes slot xs @ body_writes (body_slot slot xs) ys"
  by (induction slot xs rule: body_writes.induct) simp_all

lemma body_reads_append:
  "body_reads slot (xs @ ys) = body_reads slot xs @ body_reads (body_slot slot xs) ys"
  by (induction slot xs rule: body_reads.induct) simp_all

lemma take1_append: "take (Suc 0) (xs @ ys) = (if xs = [] then take (Suc 0) ys else take (Suc 0) xs)"
  by (cases xs) simp_all

lemma drop1_append: "drop (Suc 0) (xs @ ys) = (if xs = [] then drop (Suc 0) ys else drop (Suc 0) xs @ ys)"
  by (cases xs) simp_all

lemma parts_cong:
  assumes "header c' = header c" "latch c' = latch c" "pre_exit c' = pre_exit c"
  shows "header_part ir c' bs = header_part ir c bs" "body_part ir c' bs = body_part ir c bs"
proof -
  have "is_loop_body c' = is_loop_body c"
    using assms by (rule is_loop_body_cong)
  then show "body_part ir c' bs = body_part ir c bs"
    by (simp add: body_part_def)
  show "header_part ir c' bs = header_part ir c bs"
    using assms(1) by (simp add: header_part_def)
qed

lemma fold_body_writes:
  "writes (candidate (fold body_instr is s)) = writes (candidate s) @ body_writes (slot_of s) is"
  and fold_body_reads:
  "reads (candidate (fold body_instr is s)) = reads (candidate s) @ body_reads (slot_of s) is"
  and fold_body_slot: "slot_of (fold body_instr is s) = body_slot (slot_of s) is"
  and fold_body_flag: "header_seen_load (fold body_instr is s) = header_seen_load s"
  and fold_body_header: "header (candidate (fold body_instr is s)) = header (candidate s)"
  and fold_body_latch: "latch (candidate (fold body_instr is s)) = latch (candidate s)"
  and fold_body_pre_exit: "pre_exit (candidate (fold body_instr is s)) = pre_exit (candidate s)"
  using fold_body_instr [of "is" s] by blast+

lemma fold_header_writes:
  "writes (candidate (fold header_instr is s)) =
     writes (candidate s) @ (if header_seen_load s then [] else take 1 (load_operands is))"
  and fold_header_reads:
  "reads (candidate (fold header_instr is s)) =
     reads (candidate s) @ (if header_seen_load s then load_operands is else drop 1 (load_operands is))"
  and fold_header_flag:
  "header_seen_load (fold header_instr is s) = (header_seen_load s \<or> load_operands is \<noteq> [])"
  and fold_header_slot: "slot_of (fold header_instr is s) = slot_of s"
  and fold_header_header: "header (candidate (fold header_instr is s)) = header (candidate s)"
  and fold_header_latch: "latch (candidate (fold header_instr is s)) = latch (candidate s)"
  and fold_header_pre_exit: "pre_exit (candidate (fold header_instr is s)) = pre_exit (candidate s)"
  using fold_header_instr [of "is" s] by blast+

lemma fold_memops_block:
  "mset (writes (candidate (fold (memops_block ir) bs s))) =
     mset (writes (candidate s))
     + mset (if header_seen_load s then [] else take 1 (load_operands (header_part ir (candidate s) bs)))
     + mset (body_writes (slot_of s) (body_part ir (candidate s) bs))
   \<and> mset (reads (candidate (fold (memops_block ir) bs s))) =
     mset (reads (candidate s))
     + mset (if header_seen_load s then load_operands (header_part ir (candidate s) bs)
             else drop 1 (load_operands (header_part ir (candidate s) bs)))
     + mset (body_reads (slot_of s) (body_part ir (candidate s) bs))"
proof (induction bs arbitrary: s)
  case Nil
  show ?case by (simp add: header_part_def body_part_def)
next
  case (Cons b bs)
  let ?c = "candidate s"
  show ?case
  proof (cases "Some b = header ?c")
    case True
    let ?s1 = "fold header_instr (block ir b) s"
    have step: "fold (memops_block ir) (b # bs) s = fold (memops_block ir) bs ?s1"
      using True by (simp add: memops_block_def)
    have nb: "\<not> is_loop_body ?c b"
      using True by (simp add: is_loop_body_def)
    have hp: "header_part ir (candidate ?s1) bs = header_part ir ?c bs"
      by (rule parts_cong) (simp_all add: fold_header_header fold_header_latch fold_header_pre_exit)
    have bp: "body_part ir (candidate ?s1) bs = body_part ir ?c bs"
      by (rule parts_cong) (simp_all add: fold_header_header fold_header_latch fold_header_pre_exit)
    have hp': "header_part ir ?c (b # bs) = block ir b @ header_part ir ?c bs"
      using True by (simp add: header_part_def)
    have bp': "body_part ir ?c (b # bs) = body_part ir ?c bs"
      using nb by (simp add: body_part_def)
    note ih = Cons.IH [of ?s1, unfolded hp bp fold_header_slot fold_header_writes
        fold_header_reads fold_header_flag]
    show ?thesis
    proof (cases "header_seen_load s")
      case True
      with ih show ?thesis
        unfolding step hp' bp' load_operands_append by simp
    next
      case False
      show ?thesis
      proof (cases "load_operands (block ir b)")
        case Nil
        with False ih show ?thesis
          unfolding step hp' bp' load_operands_append by simp
      next
        case (Cons p ps)
        with False ih show ?thesis
          unfolding step hp' bp' load_operands_append by simp
      qed
    qed
  next
    case False
    note nh = False
    show ?thesis
    proof (cases "is_loop_body ?c b")
      case True
      let ?s1 = "fold body_instr (block ir b) s"
      have step: "fold (memops_block ir) (b # bs) s = fold (memops_block ir) bs ?s1"
        using nh True by (simp add: memops_block_def)
      have hp: "header_part ir (candidate ?s1) bs = header_part ir ?c bs"
        by (rule parts_cong) (simp_all add: fold_body_header fold_body_latch fold_body_pre_exit)
      have bp: "body_part ir (candidate ?s1) bs = body_part ir ?c bs"
        by (rule parts_cong) (simp_all add: fold_body_header fold_body_latch fold_body_pre_exit)
      have hp': "header_part ir ?c (b # bs) = header_part ir ?c bs"
        using nh by (simp add: header_part_def)
      have bp': "body_part ir ?c (b # bs) = block ir b @ body_part ir ?c bs"
        using True by (simp add: body_part_def)
      note ih = Cons.IH [of ?s1, unfolded hp bp fold_body_slot fold_body_writes
          fold_body_reads fold_body_flag]
      from ih show ?thesis
        unfolding step hp' bp' body_writes_append body_reads_append by simp
    next
      case False
      have step: "fold (memops_block ir) (b # bs) s = fold (memops_block ir) bs s"
        using nh False by (simp add: memops_block_def)
      have hp': "header_part ir ?c (b # bs) = header_part ir ?c bs"
        using nh by (simp add: header_part_def)
      have bp': "body_part ir ?c (b # bs) = body_part ir ?c bs"
        using False by (simp add: body_part_def)
      from Cons.IH [of s] show ?thesis
        unfolding step hp' bp' by simp
    qed
  qed
qed

text \<open>
  C4. The collector puts the address operand of the first load of the header into the
  write-set and those of all later header loads into the read-set. Over the body blocks
  (the loop's blocks other than header, latch and pre-exit) it keeps one pending slot, which
  starts empty, is overwritten by each address computation and is emptied by each load and
  store: a load adds the slot's content, or else its own address operand, to the read-set,
  and a store does the same for the write-set. Nothing else is added.
\<close>

theorem get_loop_memops_classification:
  "mset (writes (get_loop_memops uninit ir c)) =
     mset (writes c) + mset (take 1 (load_operands (header_insts ir c)))
     + mset (body_writes None (body_insts ir c))
   \<and> mset (reads (get_loop_memops uninit ir c)) =
     mset (reads c) + mset (drop 1 (load_operands (header_insts ir c)))
     + mset (body_reads None (body_insts ir c))"
  using fold_memops_block [of ir "getBlocks (loops ir (loop c))"
      "\<lparr>candidate = c, gep_operand = uninit, seen_gep = False, header_seen_load = False\<rparr>"]
  by (simp add: get_loop_memops_def header_insts_def body_insts_def slot_of_def)

section \<open>The induction variable extractor: theorems\<close>

lemma first_load_Cons:
  "first_load (i # is) = (case i of LoadInst p vol \<Rightarrow> Some p | _ \<Rightarrow> first_load is)"
  by (cases i) (simp_all add: first_load_def)

lemma fold_header_scan_iv:
  "induction_variable (fold (header_scan variables) is l) =
     (if induction_variable l = None then first_load is else induction_variable l)"
proof (induction "is" arbitrary: l)
  case Nil
  show ?case by (simp add: first_load_def)
next
  case (Cons i "is")
  show ?case
    by (cases i) (auto simp: Cons.IH first_load_Cons split: llvm_value.splits)
qed

lemma fold_header_scan_frame:
  "start_const (fold (header_scan variables) is l) = start_const l
   \<and> start_variable (fold (header_scan variables) is l) = start_variable l
   \<and> advance_const (fold (header_scan variables) is l) = advance_const l
   \<and> advance_variable (fold (header_scan variables) is l) = advance_variable l
   \<and> advance_op (fold (header_scan variables) is l) = advance_op l"
proof (induction "is" arbitrary: l)
  case Nil
  show ?case by simp
next
  case (Cons i "is")
  show ?case
    by (cases i) (simp_all add: Cons.IH split: llvm_value.splits)
qed

lemma fold_stored_scan:
  "fold (stored_scan (Some p)) is stored \<longleftrightarrow> stored \<or> list_ex (is_store_to p) is"
proof (induction "is" arbitrary: stored)
  case Nil
  show ?case by simp
next
  case (Cons i "is")
  show ?case
    by (cases i) (auto simp: Cons.IH)
qed

lemma fold_stored_blocks:
  "fold (\<lambda>BB stored. if \<not> is_loop_body c BB then stored
                       else fold (stored_scan (Some p)) (block ir BB) stored) bs stored
   \<longleftrightarrow> stored \<or> list_ex (\<lambda>BB. is_loop_body c BB \<and> list_ex (is_store_to p) (block ir BB)) bs"
proof (induction bs arbitrary: stored)
  case Nil
  show ?case by simp
next
  case (Cons b bs)
  show ?case
    by (auto simp: Cons.IH fold_stored_scan)
qed

lemma induction_variable_is_stored_iff:
  "induction_variable_is_stored ir c (Some p) \<longleftrightarrow> stored_in_body ir c p"
  by (simp add: induction_variable_is_stored_def stored_in_body_def fold_stored_blocks)

lemma store_values_append: "store_values (xs @ ys) = store_values xs @ store_values ys"
  by (induction xs rule: store_values.induct) simp_all

lemma binary_operations_append:
  "binary_operations (xs @ ys) = binary_operations xs @ binary_operations ys"
  by (induction xs rule: binary_operations.induct) simp_all

lemma last_const_snoc:
  "last_const (vs @ [v]) = (if is_const_int v then const_int_of v else last_const vs)"
  by (simp add: last_const_def)

lemma last_variable_snoc:
  "last_variable variables (vs @ [v]) =
     (if is_const_int v then last_variable variables vs else variables v)"
  by (simp add: last_variable_def)

lemma is_const_int_simps [simp]:
  "is_const_int (Const (ConstantInt t n))"
  "\<not> is_const_int (Const (ConstantFP t n))"
  "\<not> is_const_int (Const (ConstantOther t n))"
  "\<not> is_const_int (InstValue k)"
  "\<not> is_const_int (Argument k)"
  by (simp_all add: is_const_int_def)

lemma preheader_scan_store:
  "preheader_scan variables (StoreInst v p vol) l =
     (if is_const_int v then l\<lparr>start_const := const_int_of v\<rparr>
      else l\<lparr>start_variable := variables v\<rparr>)"
  by (cases v rule: const_int_of.cases) simp_all

lemma latch_scan_binop:
  "latch_scan variables (BinaryOperator opc a b) l =
     (if is_const_int b then l\<lparr>advance_const := const_int_of b, advance_op := opc\<rparr>
      else l\<lparr>advance_variable := variables b, advance_op := opc\<rparr>)"
  by (cases b rule: const_int_of.cases) simp_all

lemma fold_preheader_scan:
  "fold (preheader_scan variables) is l = l
     \<lparr>start_const := (if filter is_const_int (store_values is) = [] then start_const l
                      else last_const (store_values is)),
      start_variable := (if filter (\<lambda>v. \<not> is_const_int v) (store_values is) = []
                         then start_variable l
                         else last_variable variables (store_values is))\<rparr>"
proof (induction "is" rule: rev_induct)
  case Nil
  show ?case by simp
next
  case (snoc i "is")
  show ?case
  proof (cases i)
    case (StoreInst v p vol)
    then show ?thesis
      by (simp add: snoc.IH store_values_append last_const_snoc last_variable_snoc
          preheader_scan_store del: preheader_scan.simps)
  qed (simp_all add: snoc.IH store_values_append)
qed

lemma fold_latch_scan:
  "fold (latch_scan variables) is l = l
     \<lparr>advance_const := (if filter is_const_int (map snd (binary_operations is)) = []
                        then advance_const l
                        else last_const (map snd (binary_operations is))),
      advance_variable := (if filter (\<lambda>v. \<not> is_const_int v) (map snd (binary_operations is)) = []
                           then advance_variable l
                           else last_variable variables (map snd (binary_operations is))),
      advance_op := (if binary_operations is = [] then advance_op l
                     else fst (last (binary_operations is)))\<rparr>"
proof (induction "is" rule: rev_induct)
  case Nil
  show ?case by simp
next
  case (snoc i "is")
  show ?case
  proof (cases i)
    case (BinaryOperator opc a b)
    then show ?thesis
      by (auto simp add: snoc.IH binary_operations_append last_const_snoc last_variable_snoc
          latch_scan_binop simp del: latch_scan.simps)
  qed (simp_all add: snoc.IH binary_operations_append)
qed


lemma get_loop_induction_Inr:
  assumes "get_loop_induction uo ir c vars = Inr c'"
  obtains h ph la p where "header c = Some h" "preheader c = Some ph" "latch c = Some la"
    "first_load (block ir h) = Some p" "stored_in_body ir c p"
    "c' = c\<lparr>induction := fold (latch_scan vars) (block ir la)
            (fold (preheader_scan vars) (block ir ph)
              (fold (header_scan vars) (block ir h) (locals_init uo)))\<rparr>"
    "advance_const (induction c') \<noteq> None \<or> advance_variable (induction c') \<noteq> None"
proof -
  from assms obtain h where h: "header c = Some h"
    by (cases "header c") (simp_all add: get_loop_induction_def)
  define l1 where "l1 = fold (header_scan vars) (block ir h) (locals_init uo)"
  have iv: "induction_variable l1 = first_load (block ir h)"
    by (simp add: l1_def fold_header_scan_iv locals_init_def)
  from assms h have a1: "induction_variable l1 \<noteq> None"
    and a2: "induction_variable_is_stored ir c (induction_variable l1)"
    by (auto simp: get_loop_induction_def Let_def l1_def split: if_splits)
  from a1 iv obtain p where p: "first_load (block ir h) = Some p"
    by (cases "first_load (block ir h)") auto
  from a2 iv p have st: "stored_in_body ir c p"
    by (simp add: induction_variable_is_stored_iff)
  from assms h a1 a2 obtain ph where ph: "preheader c = Some ph"
    by (cases "preheader c") (auto simp: get_loop_induction_def Let_def l1_def split: if_splits)
  define l2 where "l2 = fold (preheader_scan vars) (block ir ph) l1"
  from assms h ph a1 a2 obtain la where la: "latch c = Some la"
    by (cases "latch c") (auto simp: get_loop_induction_def Let_def l1_def split: if_splits)
  define l3 where "l3 = fold (latch_scan vars) (block ir la) l2"
  from assms h ph la have c': "c' = c\<lparr>induction := l3\<rparr>"
    and adv: "advance_const l3 \<noteq> None \<or> advance_variable l3 \<noteq> None"
    by (auto simp: get_loop_induction_def Let_def l1_def l2_def l3_def split: if_splits)
  show thesis
    using that [OF h ph la p st] c' adv by (simp add: l1_def l2_def l3_def)
qed

lemma get_loop_induction_no_load:
  assumes "header c = Some h" "first_load (block ir h) = None"
  shows "get_loop_induction uo ir c vars =
           Inl (Diagnostic ''Loop does not have an induction variable.'')"
  using assms by (simp add: get_loop_induction_def Let_def fold_header_scan_iv locals_init_def)

lemma get_loop_induction_not_stored:
  assumes "header c = Some h" "first_load (block ir h) = Some p" "\<not> stored_in_body ir c p"
  shows "get_loop_induction uo ir c vars = Inl (Diagnostic ''Loop stop is not a constant or a variable.'')
       \<or> get_loop_induction uo ir c vars = Inl (Diagnostic ''Loop induction variable is not used.'')"
  using assms
  by (simp add: get_loop_induction_def Let_def fold_header_scan_iv locals_init_def
      induction_variable_is_stored_iff)

lemma while_blocks_simps:
  "while_blocks 0 = [StoreInst (Argument 0) (InstValue 14) False,
        StoreInst (c32 1) (InstValue 10) False,
        StoreInst (c32 1) (InstValue 11) False,
        StoreInst (c32 1) (InstValue 12) False,
        OtherInst False]"
  "while_blocks (Suc 0) = [LoadInst (InstValue 12) False,
        ICmpInst (InstValue 20) (c32 65535),
        OtherInst False]"
  "while_blocks 2 = [LoadInst (InstValue 12) False,
        BinaryOperator Mul (InstValue 21) (c32 2),
        StoreInst (InstValue 22) (InstValue 12) False,
        LoadInst (InstValue 14) False,
        ICmpInst (InstValue 23) (c32 0),
        OtherInst False]"
  "while_blocks 3 = [StoreInst (c32 0) (InstValue 11) False,
        OtherInst False]"
  "while_blocks 4 = [LoadInst (InstValue 10) False,
        BinaryOperator Add (InstValue 24) (c32 1),
        StoreInst (InstValue 25) (InstValue 10) False,
        OtherInst False]"
  by (simp_all add: while_blocks_def)

lemma for_blocks_simps:
  "for_blocks (Suc 0) = [LoadInst (InstValue 12) False,
        ICmpInst (InstValue 20) (c32 65535),
        OtherInst False]"
  "for_blocks 2 = [LoadInst (InstValue 10) False,
        ICmpInst (InstValue 21) (c32 0),
        OtherInst False]"
  "for_blocks 3 = [LoadInst (InstValue 12) False,
        BinaryOperator SRem (InstValue 22) (c32 5),
        ICmpInst (InstValue 23) (c32 2),
        OtherInst False]"
  "for_blocks 4 = [OtherInst False,
        OtherInst False,
        StoreInst (InstValue 26) (InstValue 10) False,
        OtherInst False]"
  by (simp_all add: for_blocks_def)

lemmas example_defs = while_ir_def late_load_ir_def mixed_ir_def no_load_ir_def for_ir_def
  while_loop_def for_loop_def while_cand_def for_cand_def fresh_candidate_def
  while_blocks_simps for_blocks_simps c32_def i32_def

lemma while_stored: "stored_in_body while_ir while_cand (InstValue 12)"
  and late_load_stored: "stored_in_body late_load_ir while_cand (InstValue 12)"
  and mixed_stored: "stored_in_body mixed_ir while_cand (InstValue 12)"
  and for_not_stored: "\<not> stored_in_body for_ir for_cand (InstValue 12)"
  by (simp_all add: stored_in_body_def is_loop_body_def example_defs)

lemma while_extract:
  "get_loop_induction Add while_ir while_cand while_variables = Inr while_extracted"
  using while_stored
  by (simp add: get_loop_induction_def induction_variable_is_stored_iff locals_init_def
      while_variables_def while_extracted_def example_defs)

lemma late_load_extract:
  "get_loop_induction Add late_load_ir while_cand while_variables = Inr while_extracted"
  using late_load_stored
  by (simp add: get_loop_induction_def induction_variable_is_stored_iff locals_init_def
      while_variables_def while_extracted_def example_defs)

lemma mixed_extract:
  "get_loop_induction Add mixed_ir while_cand mixed_variables = Inr mixed_result"
  using mixed_stored
  by (simp add: get_loop_induction_def induction_variable_is_stored_iff locals_init_def
      mixed_variables_def mixed_result_def example_defs)

lemma mixed_other_extract:
  "get_loop_induction Add mixed_other_ir while_cand mixed_other_variables = Inr mixed_other_result"
proof -
  have "stored_in_body mixed_other_ir while_cand (InstValue 12)"
    by (simp add: stored_in_body_def is_loop_body_def mixed_other_ir_def example_defs)
  then show ?thesis
    by (simp add: get_loop_induction_def induction_variable_is_stored_iff locals_init_def
        mixed_other_variables_def mixed_variables_def mixed_other_result_def mixed_other_ir_def
        example_defs)
qed

text \<open>
  The claim C2 as stated fails on two candidates that the extractor returns for loops whose
  preheaders store a constant and then a loaded value: both record a start constant and
  a start variable, the constants are equal, the variable references are different values,
  and \<open>same_loop_evolution\<close> returns true.
\<close>

theorem unequal_references_accepted_counterexample:
  "get_loop_induction Add mixed_ir while_cand mixed_variables = Inr mixed_result
   \<and> get_loop_induction Add mixed_other_ir while_cand mixed_other_variables
       = Inr mixed_other_result
   \<and> start_variable (induction mixed_result) = Some (InstValue 14)
   \<and> start_variable (induction mixed_other_result) = Some (InstValue 16)
   \<and> \<not> same_kind_and_equal
         (start_const (induction mixed_result)) (start_variable (induction mixed_result))
         (start_const (induction mixed_other_result))
         (start_variable (induction mixed_other_result))
   \<and> same_loop_evolution mixed_result mixed_other_result = Inr ()"
proof -
  have "same_loop_evolution mixed_result mixed_other_result = Inr ()"
    by (simp add: same_loop_evolution_blocks stop_block_def advance_block_def
        advance_op_block_def start_block_def mixed_result_def mixed_other_result_def i32_def)
  with mixed_extract mixed_other_extract show ?thesis
    by (simp add: mixed_result_def mixed_other_result_def same_kind_and_equal_def)
qed

text \<open>
  C5 (as amended). When extraction succeeds, the induction-variable handle is the address
  operand of the first load of the header, whether that load stands before or after a
  comparison, and some body block (a block of the loop other than header, latch and
  pre-exit) stores to it. When the header has no load, extraction fails with the line
  "Loop does not have an induction variable."; when no body block stores to the handle,
  it fails with the line of the stop check or with "Loop induction variable is not used.".
\<close>

theorem induction_handle_is_first_header_load:
  assumes "header c = Some h"
  shows "(get_loop_induction uo ir c vars = Inr c' \<longrightarrow>
            induction_variable (induction c') = first_load (block ir h)
            \<and> (case first_load (block ir h) of Some p \<Rightarrow> stored_in_body ir c p | None \<Rightarrow> False))
       \<and> (first_load (block ir h) = None \<longrightarrow>
            get_loop_induction uo ir c vars =
              Inl (Diagnostic ''Loop does not have an induction variable.''))
       \<and> (first_load (block ir h) = Some p \<and> \<not> stored_in_body ir c p \<longrightarrow>
            get_loop_induction uo ir c vars
              = Inl (Diagnostic ''Loop stop is not a constant or a variable.'')
            \<or> get_loop_induction uo ir c vars
              = Inl (Diagnostic ''Loop induction variable is not used.''))"
proof (intro conjI impI)
  assume ok: "get_loop_induction uo ir c vars = Inr c'"
  from ok obtain h' ph la q where *: "header c = Some h'" "first_load (block ir h') = Some q"
    "stored_in_body ir c q"
    "c' = c\<lparr>induction := fold (latch_scan vars) (block ir la)
            (fold (preheader_scan vars) (block ir ph)
              (fold (header_scan vars) (block ir h') (locals_init uo)))\<rparr>"
    by (rule get_loop_induction_Inr)
  from * assms have hh: "h' = h" by simp
  have "induction_variable (induction c') = first_load (block ir h)"
    unfolding *(4) hh
    by (simp add: fold_latch_scan fold_preheader_scan fold_header_scan_iv locals_init_def)
  moreover have "case first_load (block ir h) of Some p \<Rightarrow> stored_in_body ir c p | None \<Rightarrow> False"
    using * hh by simp
  ultimately show "induction_variable (induction c') = first_load (block ir h)"
    and "case first_load (block ir h) of Some p \<Rightarrow> stored_in_body ir c p | None \<Rightarrow> False"
    by simp_all
next
  assume "first_load (block ir h) = None"
  with assms show "get_loop_induction uo ir c vars =
      Inl (Diagnostic ''Loop does not have an induction variable.'')"
    by (rule get_loop_induction_no_load)
next
  assume "first_load (block ir h) = Some p \<and> \<not> stored_in_body ir c p"
  then have "first_load (block ir h) = Some p" and "\<not> stored_in_body ir c p"
    by simp_all
  with assms show "get_loop_induction uo ir c vars
              = Inl (Diagnostic ''Loop stop is not a constant or a variable.'')
            \<or> get_loop_induction uo ir c vars
              = Inl (Diagnostic ''Loop induction variable is not used.'')"
    by (rule get_loop_induction_not_stored)
qed


text \<open>
  The claim C5 as stated fails on a header whose comparison precedes its first load: no load
  occurs before any comparison, and extraction succeeds with the later load as the handle.
\<close>

theorem first_load_before_comparison_counterexample:
  "first_load_before_comparison (block late_load_ir 1) = None
   \<and> get_loop_induction Add late_load_ir while_cand while_variables = Inr while_extracted
   \<and> induction_variable (induction while_extracted) = Some (InstValue 12)"
  using late_load_extract by (simp add: while_extracted_def example_defs)

theorem induction_handle_is_first_header_load_witness:
  "header while_cand = Some 1
   \<and> get_loop_induction Add while_ir while_cand while_variables = Inr while_extracted
   \<and> induction_variable (induction while_extracted) = first_load (block while_ir 1)
   \<and> first_load (block no_load_ir 1) = None
   \<and> get_loop_induction Add no_load_ir while_cand while_variables
       = Inl (Diagnostic ''Loop does not have an induction variable.'')
   \<and> header for_cand = Some 1
   \<and> first_load (block for_ir 1) = Some (InstValue 12)
   \<and> \<not> stored_in_body for_ir for_cand (InstValue 12)
   \<and> get_loop_induction Add for_ir for_cand while_variables
       = Inl (Diagnostic ''Loop induction variable is not used.'')"
proof -
  have h: "header while_cand = Some 1" and hf: "header for_cand = Some 1"
    by (simp_all add: example_defs)
  have n: "first_load (block no_load_ir 1) = None"
    and f: "first_load (block for_ir 1) = Some (InstValue 12)"
    by (simp_all add: first_load_def example_defs)
  have d: "get_loop_induction Add for_ir for_cand while_variables
      \<noteq> Inl (Diagnostic ''Loop stop is not a constant or a variable.'')"
    using for_not_stored
    by (simp add: get_loop_induction_def induction_variable_is_stored_iff locals_init_def
        example_defs)
  from induction_handle_is_first_header_load [OF h, of Add while_ir while_variables while_extracted]
    induction_handle_is_first_header_load [OF h, of Add no_load_ir while_variables]
    induction_handle_is_first_header_load [OF hf, of Add for_ir while_variables _ "InstValue 12"]
    h hf n f d while_extract for_not_stored
  show ?thesis
    by simp
qed

lemma last_const_none: "filter is_const_int vs = [] \<Longrightarrow> last_const vs = None"
  and last_variable_none:
    "filter (\<lambda>v. \<not> is_const_int v) vs = [] \<Longrightarrow> last_variable variables vs = None"
  by (simp_all add: last_const_def last_variable_def)

lemma extracted_induction_variable:
  "induction_variable (fold (latch_scan vars) la (fold (preheader_scan vars) ph
      (fold (header_scan vars) h (locals_init uo)))) = first_load h"
  by (simp add: fold_latch_scan fold_preheader_scan fold_header_scan_iv locals_init_def)

lemma extracted_start:
  "start_const (fold (latch_scan vars) la (fold (preheader_scan vars) ph
      (fold (header_scan vars) h (locals_init uo)))) = last_const (store_values ph)"
  "start_variable (fold (latch_scan vars) la (fold (preheader_scan vars) ph
      (fold (header_scan vars) h (locals_init uo)))) = last_variable vars (store_values ph)"
  by (simp_all add: fold_latch_scan fold_preheader_scan fold_header_scan_frame locals_init_def
      last_const_none last_variable_none)

lemma extracted_advance:
  "advance_const (fold (latch_scan vars) la (fold (preheader_scan vars) ph
      (fold (header_scan vars) h (locals_init uo))))
     = last_const (map snd (binary_operations la))"
  "advance_variable (fold (latch_scan vars) la (fold (preheader_scan vars) ph
      (fold (header_scan vars) h (locals_init uo))))
     = last_variable vars (map snd (binary_operations la))"
  "binary_operations la \<noteq> [] \<Longrightarrow>
   advance_op (fold (latch_scan vars) la (fold (preheader_scan vars) ph
      (fold (header_scan vars) h (locals_init uo))))
     = fst (last (binary_operations la))"
  by (simp_all add: fold_latch_scan fold_preheader_scan fold_header_scan_frame locals_init_def
      last_const_none last_variable_none)

text \<open>
  What the two scans leave in the descriptor, for every loop: the constant of the last
  store of an integer constant and the variable of the last store of anything else, each
  in its own field, and likewise for the second operands of the binary operations of the
  latch, with the opcode of the last binary operation.
\<close>

lemma scans_keep_last_of_each_kind:
  assumes "get_loop_induction uo ir c vars = Inr c'"
    and "preheader c = Some ph" and "latch c = Some la"
  shows "start_const (induction c') = last_const (store_values (block ir ph))
       \<and> start_variable (induction c') = last_variable vars (store_values (block ir ph))
       \<and> advance_const (induction c') = last_const (map snd (binary_operations (block ir la)))
       \<and> advance_variable (induction c')
           = last_variable vars (map snd (binary_operations (block ir la)))
       \<and> binary_operations (block ir la) \<noteq> []
       \<and> advance_op (induction c') = fst (last (binary_operations (block ir la)))"
proof -
  from assms(1) obtain h ph' la' where *: "preheader c = Some ph'" "latch c = Some la'"
    "c' = c\<lparr>induction := fold (latch_scan vars) (block ir la')
            (fold (preheader_scan vars) (block ir ph')
              (fold (header_scan vars) (block ir h) (locals_init uo)))\<rparr>"
    "advance_const (induction c') \<noteq> None \<or> advance_variable (induction c') \<noteq> None"
    by (rule get_loop_induction_Inr)
  from * assms have eq: "ph' = ph" "la' = la"
    by simp_all
  have ind: "induction c' = fold (latch_scan vars) (block ir la)
            (fold (preheader_scan vars) (block ir ph)
              (fold (header_scan vars) (block ir h) (locals_init uo)))"
    using *(3) eq by simp
  have ne: "binary_operations (block ir la) \<noteq> []"
  proof
    assume "binary_operations (block ir la) = []"
    then have "advance_const (induction c') = None" "advance_variable (induction c') = None"
      unfolding ind extracted_advance by (simp_all add: last_const_def last_variable_def)
    with *(4) show False by simp
  qed
  show ?thesis
    unfolding ind using ne by (simp add: extracted_start extracted_advance)
qed

text \<open>
  C6. The claim is that the last store of the preheader determines the recorded start and
  the last binary operation of the latch the recorded advance and \<open>advance_op\<close>. The
  code does not do so on a loop whose preheader stores the constant 1 and then a loaded
  value, and whose latch multiplies by 2 and then adds a loaded value. The recorded start
  is not what the last store records: \<open>start_const\<close> still holds the 1 of the earlier
  store beside the variable of the last one. The recorded advance is not what the last
  binary operation records: \<open>advance_op\<close> is the \<open>Add\<close> of the last operation, and
  \<open>advance_const\<close> the 2 of the earlier \<open>Mul\<close>.
\<close>

theorem mixed_kinds_keep_stale_fields:
  "get_loop_induction Add mixed_ir while_cand mixed_variables = Inr mixed_result
   \<and> store_values (block mixed_ir 0) = [c32 1, InstValue 26]
   \<and> recorded_by mixed_variables (InstValue 26) = (None, Some (InstValue 14))
   \<and> (start_const (induction mixed_result), start_variable (induction mixed_result))
       = (Some (ConstantInt i32 1), Some (InstValue 14))
   \<and> binary_operations (block mixed_ir 4) = [(Mul, c32 2), (Add, InstValue 28)]
   \<and> recorded_by mixed_variables (InstValue 28) = (None, Some (InstValue 14))
   \<and> (advance_const (induction mixed_result), advance_variable (induction mixed_result))
       = (Some (ConstantInt i32 2), Some (InstValue 14))
   \<and> advance_op (induction mixed_result) = Add"
  using mixed_extract
  by (simp add: mixed_result_def recorded_by_def mixed_variables_def example_defs)


section \<open>The candidate builder: theorems\<close>

lemma same_blocks_refl: "same_blocks c c"
  by (simp add: same_blocks_def)

lemma same_blocks_trans: "same_blocks a b \<Longrightarrow> same_blocks b c \<Longrightarrow> same_blocks a c"
  by (simp add: same_blocks_def)

lemma same_blocks_header_instr: "same_blocks (candidate s) (candidate (header_instr i s))"
  by (cases i) (simp_all add: same_blocks_def writes_push_back_def reads_push_back_def)

lemma same_blocks_body_instr: "same_blocks (candidate s) (candidate (body_instr i s))"
  by (cases i) (simp_all add: same_blocks_def writes_push_back_def reads_push_back_def)

lemma same_blocks_fold:
  assumes "\<And>x s. same_blocks (candidate s) (candidate (f x s))"
  shows "same_blocks (candidate s) (candidate (fold f xs s))"
proof (induction xs arbitrary: s)
  case Nil
  show ?case by (simp add: same_blocks_refl)
next
  case (Cons x xs)
  from assms [of s x] Cons.IH [of "f x s"] show ?case
    by (simp add: same_blocks_trans)
qed

lemma same_blocks_memops_block: "same_blocks (candidate s) (candidate (memops_block ir BB s))"
  unfolding memops_block_def
  by (simp add: same_blocks_refl same_blocks_fold same_blocks_header_instr same_blocks_body_instr)

lemma same_blocks_get_loop_memops: "same_blocks c (get_loop_memops uninit ir c)"
  unfolding get_loop_memops_def
  using same_blocks_fold [of "memops_block ir", OF same_blocks_memops_block,
      of "\<lparr>candidate = c, gep_operand = uninit, seen_gep = False, header_seen_load = False\<rparr>"]
  by simp

lemma stored_in_body_cong:
  assumes "loop c' = loop c" "header c' = header c" "latch c' = latch c" "pre_exit c' = pre_exit c"
  shows "stored_in_body ir c' p = stored_in_body ir c p"
proof -
  have "is_loop_body c' = is_loop_body c"
    using assms(2-4) by (rule is_loop_body_cong)
  then show ?thesis
    by (simp add: stored_in_body_def assms(1))
qed

lemma create_fusion_candidate_Inr:
  assumes "create_fusion_candidate uninit uo ir c0 lp vars = Inr c'"
  obtains c3 where
    "c3 = c0\<lparr>preheader := getLoopPreheader (loops ir lp), exit := getUniqueExitBlock (loops ir lp),
             header := getHeader (loops ir lp), latch := getLoopLatch (loops ir lp),
             pre_exit := getExitingBlock (loops ir lp), loop := lp\<rparr>"
    "preheader c3 \<noteq> None" "exit c3 \<noteq> None" "header c3 \<noteq> None" "latch c3 \<noteq> None"
    "pre_exit c3 \<noteq> None" "\<not> isAnnotatedParallel (loops ir lp)"
    "first_rejected (concat (map (block ir) (getBlocks (loops ir lp)))) = None"
    "get_loop_induction uo ir (get_loop_memops uninit ir c3) vars = Inr c'"
  using assms
  by (auto simp: create_fusion_candidate_def Let_def split: option.splits if_splits)

text \<open>
  C7 (as amended). A candidate that the builder returns has a preheader, header, latch,
  pre-exit and exit that are not null and are the blocks LLVM names for the loop, in
  particular its unique exit block; and some body block (a block of the loop other than
  header, latch and pre-exit) stores to its induction variable. The five blocks need not
  be distinct.
\<close>

theorem built_candidate_invariant:
  assumes "create_fusion_candidate uninit uo ir c0 lp vars = Inr c'"
  shows "preheader c' \<noteq> None \<and> header c' \<noteq> None \<and> latch c' \<noteq> None
       \<and> pre_exit c' \<noteq> None \<and> exit c' \<noteq> None
       \<and> loop c' = lp
       \<and> preheader c' = getLoopPreheader (loops ir lp)
       \<and> header c' = getHeader (loops ir lp)
       \<and> latch c' = getLoopLatch (loops ir lp)
       \<and> pre_exit c' = getExitingBlock (loops ir lp)
       \<and> exit c' = getUniqueExitBlock (loops ir lp)
       \<and> (case induction_variable (induction c') of
             Some p \<Rightarrow> stored_in_body ir c' p | None \<Rightarrow> False)"
proof -
  from assms obtain c3 where c3:
    "c3 = c0\<lparr>preheader := getLoopPreheader (loops ir lp), exit := getUniqueExitBlock (loops ir lp),
             header := getHeader (loops ir lp), latch := getLoopLatch (loops ir lp),
             pre_exit := getExitingBlock (loops ir lp), loop := lp\<rparr>"
    and nn: "preheader c3 \<noteq> None" "exit c3 \<noteq> None" "header c3 \<noteq> None" "latch c3 \<noteq> None"
      "pre_exit c3 \<noteq> None"
    and ind: "get_loop_induction uo ir (get_loop_memops uninit ir c3) vars = Inr c'"
    by (rule create_fusion_candidate_Inr)
  let ?c4 = "get_loop_memops uninit ir c3"
  have sb: "same_blocks c3 ?c4"
    by (rule same_blocks_get_loop_memops)
  from ind obtain h ph la p where *: "header ?c4 = Some h" "first_load (block ir h) = Some p"
    "stored_in_body ir ?c4 p"
    "c' = ?c4\<lparr>induction := fold (latch_scan vars) (block ir la)
            (fold (preheader_scan vars) (block ir ph)
              (fold (header_scan vars) (block ir h) (locals_init uo)))\<rparr>"
    by (rule get_loop_induction_Inr)
  have blocks: "loop c' = loop c3" "preheader c' = preheader c3" "header c' = header c3"
    "latch c' = latch c3" "pre_exit c' = pre_exit c3" "exit c' = exit c3"
    using sb unfolding *(4) by (simp_all add: same_blocks_def)
  have iv: "induction_variable (induction c') = Some p"
    unfolding *(4) using *(2) by (simp add: extracted_induction_variable)
  have "stored_in_body ir c' p = stored_in_body ir ?c4 p"
    by (rule stored_in_body_cong) (simp_all add: *(4))
  with *(3) have st: "stored_in_body ir c' p"
    by simp
  show ?thesis
    using nn blocks iv st by (simp add: c3)
qed


lemma while_memops:
  "get_loop_memops uninit while_ir while_cand =
     while_cand\<lparr>writes := [InstValue 12, InstValue 12, InstValue 11],
                 reads := [InstValue 12, InstValue 14]\<rparr>"
  by (simp add: get_loop_memops_def memops_block_def is_loop_body_def writes_push_back_def
      reads_push_back_def example_defs)

lemma while_build:
  "create_fusion_candidate uninit Add while_ir fresh_candidate 1 while_variables = Inr while_result"
proof -
  have c3: "fresh_candidate\<lparr>preheader := Some 0, exit := Some 5, header := Some (Suc 0),
      latch := Some 4, pre_exit := Some (Suc 0), loop := Suc 0\<rparr> = while_cand"
    by (simp add: while_cand_def fresh_candidate_def)
  have st: "induction_variable_is_stored while_ir
      (while_cand\<lparr>writes := [InstValue 12, InstValue 12, InstValue 11],
                  reads := [InstValue 12, InstValue 14]\<rparr>) (Some (InstValue 12))"
    by (simp add: induction_variable_is_stored_iff stored_in_body_def is_loop_body_def
        example_defs)
  have ind: "get_loop_induction Add while_ir
      (while_cand\<lparr>writes := [InstValue 12, InstValue 12, InstValue 11],
                  reads := [InstValue 12, InstValue 14]\<rparr>) while_variables = Inr while_result"
    using st
    by (simp add: get_loop_induction_def locals_init_def while_variables_def while_result_def
        example_defs)
  have rej: "first_rejected (concat (map (block while_ir) (getBlocks while_loop))) = None"
    by (simp add: example_defs)
  have L: "loops while_ir 1 = while_loop"
    by (simp add: while_ir_def)
  have fields: "getLoopPreheader while_loop = Some 0" "getUniqueExitBlock while_loop = Some 5"
    "getHeader while_loop = Some (Suc 0)" "getLoopLatch while_loop = Some 4"
    "getExitingBlock while_loop = Some (Suc 0)" "\<not> isAnnotatedParallel while_loop"
    by (simp_all add: while_loop_def)
  show ?thesis
    unfolding create_fusion_candidate_def Let_def L
    by (simp add: rej fields c3 while_memops ind)
qed

text \<open>
  The claim C7 as stated fails on a loop whose header is its exiting block: the builder
  returns a candidate whose header and pre-exit are one block.
\<close>

theorem five_distinct_blocks_counterexample:
  "create_fusion_candidate (Argument 99) Add while_ir fresh_candidate 1 while_variables
     = Inr while_result
   \<and> header while_result = pre_exit while_result
   \<and> \<not> distinct [preheader while_result, header while_result, latch while_result,
                   pre_exit while_result, exit while_result]"
  using while_build [of "Argument 99"] by (simp add: while_result_def)

theorem built_candidate_invariant_witness:
  "create_fusion_candidate (Argument 99) Add while_ir fresh_candidate 1 while_variables
     = Inr while_result
   \<and> preheader while_result \<noteq> None \<and> header while_result \<noteq> None
   \<and> latch while_result \<noteq> None \<and> pre_exit while_result \<noteq> None
   \<and> exit while_result \<noteq> None
   \<and> exit while_result = getUniqueExitBlock (loops while_ir 1)
   \<and> induction_variable (induction while_result) = Some (InstValue 12)
   \<and> stored_in_body while_ir while_result (InstValue 12)"
proof -
  have iv: "induction_variable (induction while_result) = Some (InstValue 12)"
    by (simp add: while_result_def)
  note inv = built_candidate_invariant [OF while_build [of "Argument 99"]]
  from inv have "case induction_variable (induction while_result) of
      Some p \<Rightarrow> stored_in_body while_ir while_result p | None \<Rightarrow> False"
    by blast
  then have st: "stored_in_body while_ir while_result (InstValue 12)"
    unfolding iv by simp
  from inv st iv while_build [of "Argument 99"] show ?thesis
    by blast
qed

section \<open>The transformer: theorems\<close>

lemma snd_call [simp]: "snd (call exec k s) = snd s @ [k]"
  by (simp add: call_def)




lemma fst_call [simp]: "fst (call exec k s) = exec k (fst s)"
  by (simp add: call_def)







section \<open>The driver: theorems\<close>











end
